theory Spec2Isabelle
  imports Main
begin

section \<open>Shell text processing used by the bootstrap script\<close>

text \<open>
  The bootstrap script \<^verbatim>\<open>automate_deployment.sh\<close> is a straight-line bash script. Its
  only computation on data is the extraction of the key ARN from the text printed by
  \<^verbatim>\<open>cdk deploy\<close>:
  \<^verbatim>\<open>
  sed -n -e '/Outputs:/,/^$/ p' ${CDK_OUTPUT_FILE} > .cfn_outputs
  KEY_ARN=$(awk -F " " '/KeyArn/ { print $3 }' .cfn_outputs)
  \<close>
  Texts are byte strings; a file is its content.
\<close>

definition newline :: char where
  "newline = CHR 0x0A"

definition is_blank :: "char \<Rightarrow> bool" where
  "is_blank c \<longleftrightarrow> c = CHR '' '' \<or> c = CHR 0x09 \<or> c = newline"

text \<open>
  Splitting on runs of blanks, leading and trailing blanks dropped: this is both the
  shell's word splitting of an unquoted expansion (default \<^verbatim>\<open>IFS\<close>) and awk's field
  splitting for \<^verbatim>\<open>-F " "\<close>. The first argument is the field read so far. (Pathname
  expansion of the words of an unquoted expansion is not modelled.)
\<close>

fun split_blank :: "string \<Rightarrow> string \<Rightarrow> string list" where
  "split_blank w [] = (if w = [] then [] else [w])"
| "split_blank w (c # cs) =
     (if is_blank c then (if w = [] then split_blank [] cs else w # split_blank [] cs)
      else split_blank (w @ [c]) cs)"

definition split_words :: "string \<Rightarrow> string list" where
  "split_words s = split_blank [] s"

text \<open>The lines of a text; a last line without its newline is still a line.\<close>

fun lines_acc :: "string \<Rightarrow> string \<Rightarrow> string list" where
  "lines_acc l [] = (if l = [] then [] else [l])"
| "lines_acc l (c # cs) =
     (if c = newline then l # lines_acc [] cs else lines_acc (l @ [c]) cs)"

definition lines_of :: "string \<Rightarrow> string list" where
  "lines_of text = lines_acc [] text"

definition unlines :: "string list \<Rightarrow> string" where
  "unlines ls = concat (map (\<lambda>l. l @ [newline]) ls)"

text \<open>An unanchored regular expression without metacharacters is a substring test.\<close>

fun starts_with :: "string \<Rightarrow> string \<Rightarrow> bool" where
  "starts_with [] s = True"
| "starts_with (p # ps) [] = False"
| "starts_with (p # ps) (c # cs) = (p = c \<and> starts_with ps cs)"

fun contains :: "string \<Rightarrow> string \<Rightarrow> bool" where
  "contains pat [] = (pat = [])"
| "contains pat (c # cs) = (starts_with pat (c # cs) \<or> contains pat cs)"

text \<open>
  \<^verbatim>\<open>sed -n -e '/Outputs:/,/^$/ p'\<close>: the flag says whether a range is open. A range
  opens at a line matching \<^verbatim>\<open>Outputs:\<close>; the end pattern \<^verbatim>\<open>^$\<close> is tried from the
  following line on; the closing line is printed; after it a new range may open.
\<close>

fun sed_range :: "bool \<Rightarrow> string list \<Rightarrow> string list" where
  "sed_range r [] = []"
| "sed_range False (l # ls) =
     (if contains ''Outputs:'' l then l # sed_range True ls else sed_range False ls)"
| "sed_range True (l # ls) = l # sed_range (l \<noteq> []) ls"

definition sed_Outputs :: "string \<Rightarrow> string" where
  "sed_Outputs text = unlines (sed_range False (lines_of text))"

text \<open>\<^verbatim>\<open>awk -F " " '/KeyArn/ { print $3 }'\<close>: \<^verbatim>\<open>$3\<close> is empty on a record with fewer fields.\<close>

definition awk_field :: "nat \<Rightarrow> string \<Rightarrow> string" where
  "awk_field n l =
     (let fs = split_blank [] l in if 0 < n \<and> n \<le> length fs then fs ! (n - 1) else [])"

definition awk_KeyArn :: "string \<Rightarrow> string" where
  "awk_KeyArn text =
     unlines (map (awk_field 3) (filter (contains ''KeyArn'') (lines_of text)))"

text \<open>\<^verbatim>\<open>$(...)\<close> removes the trailing newlines of the command's output.\<close>

definition command_substitution :: "string \<Rightarrow> string" where
  "command_substitution out = rev (dropWhile (\<lambda>c. c = newline) (rev out))"

definition key_arn_extract :: "string \<Rightarrow> string" where
  "key_arn_extract text = command_substitution (awk_KeyArn (sed_Outputs text))"

text \<open>
  The reading of the extraction in the specification, for comparison: the region is the
  lines from the first line matching \<^verbatim>\<open>Outputs:\<close> through the next blank line, and the
  result is the third token of a line of the region containing \<^verbatim>\<open>KeyArn\<close> (empty when
  there is none).
\<close>

fun through_blank :: "string list \<Rightarrow> string list" where
  "through_blank [] = []"
| "through_blank (l # ls) = (if l = [] then [l] else l # through_blank ls)"

fun spec_region :: "string list \<Rightarrow> string list" where
  "spec_region [] = []"
| "spec_region (l # ls) =
     (if contains ''Outputs:'' l then l # through_blank ls else spec_region ls)"

definition spec_key_arn :: "string \<Rightarrow> string" where
  "spec_key_arn text =
     (case filter (contains ''KeyArn'') (spec_region (lines_of text)) of
        [] \<Rightarrow> []
      | l # ls \<Rightarrow> awk_field 3 l)"


section \<open>The bootstrap script\<close>

text \<open>
  A job is a command line after expansion and word splitting, one string per word;
  the pipe and redirection operators of the line are kept as words. A line ending in
  \<^verbatim>\<open>&\<close> is a background job. The script has no \<^verbatim>\<open>set -e\<close>, no \<^verbatim>\<open>wait\<close> and no
  \<^verbatim>\<open>||\<close>; the only uses of an exit status are the \<^verbatim>\<open>&&\<close> lists of the git step.
\<close>

datatype job = Foreground (cmd: "string list") | Background (cmd: "string list")

type_synonym variables = "string \<Rightarrow> string option"

text \<open>\<^verbatim>\<open>${VAR}\<close>: an unset variable expands to the empty string (there is no \<^verbatim>\<open>set -u\<close>).\<close>

definition expand :: "variables \<Rightarrow> string \<Rightarrow> string" where
  "expand env v = (case env v of None \<Rightarrow> [] | Some s \<Rightarrow> s)"

text \<open>
  What the script cannot know in advance: the exit status of every command line, the
  text \<^verbatim>\<open>cdk deploy\<close> prints, and the files present when it starts.
\<close>

record world =
  exit_status :: "string list \<Rightarrow> nat"
  cdk_deploy_output :: string
  files :: "string \<Rightarrow> string option"

definition read_file :: "(string \<Rightarrow> string option) \<Rightarrow> string \<Rightarrow> string" where
  "read_file fs n = (case fs n of None \<Rightarrow> [] | Some s \<Rightarrow> s)"

definition rm_rf :: "string list \<Rightarrow> (string \<Rightarrow> string option) \<Rightarrow> (string \<Rightarrow> string option)" where
  "rm_rf names fs = (\<lambda>n. if n \<in> set names then None else fs n)"

definition tee_a :: "string \<Rightarrow> string \<Rightarrow> (string \<Rightarrow> string option) \<Rightarrow> (string \<Rightarrow> string option)" where
  "tee_a n input fs = fs(n \<mapsto> read_file fs n @ input)"

definition redirect :: "string \<Rightarrow> string \<Rightarrow> (string \<Rightarrow> string option) \<Rightarrow> (string \<Rightarrow> string option)" where
  "redirect n out fs = fs(n \<mapsto> out)"

definition backslash_n :: string where
  "backslash_n = [CHR 0x5C, CHR ''n'']"

text \<open>The script writes \<^verbatim>\<open>--profile\<close> of its two cdk lines with an em dash (U+2014).\<close>

definition em_dash :: string where
  "em_dash = [CHR 0xE2, CHR 0x80, CHR 0x94]"

definition cfn_deploy :: "string \<Rightarrow> string \<Rightarrow> string \<Rightarrow> string list \<Rightarrow> string list" where
  "cfn_deploy template stack profile overrides =
     [''aws'', ''cloudformation'', ''deploy'', ''--template-file'', template,
      ''--stack-name'', stack,
      ''--capabilities'', ''CAPABILITY_NAMED_IAM'',
      ''--profile'', profile,
      ''--parameter-overrides''] @ overrides"

text \<open>Lines 26 to 32: the test of the three account variables and its branch.\<close>

definition accounts_missing :: "variables \<Rightarrow> bool" where
  "accounts_missing env \<longleftrightarrow>
     expand env ''TOOLS_ACCOUNT_ID'' = [] \<or> expand env ''UAT_ACCOUNT_ID'' = [] \<or>
     expand env ''PROD_ACCOUNT_ID'' = []"

definition please_set_accounts :: "variables \<Rightarrow> job list" where
  "please_set_accounts env =
     [Foreground [''printf'', ''Please set TOOLS_ACCOUNT_ID, UAT_ACCOUNT_ID, and PROD_ACCOUNT_ID''],
      Foreground ([''printf'', ''TOOLS_ACCOUNT_ID =''] @ split_words (expand env ''TOOLS_ACCOUNT_ID'')),
      Foreground ([''printf'', ''UAT_ACCOUNT_ID =''] @ split_words (expand env ''UAT_ACCOUNT_ID'')),
      Foreground ([''printf'', ''PROD_ACCOUNT_ID =''] @ split_words (expand env ''PROD_ACCOUNT_ID''))]"

text \<open>Lines 35 to 57: the roles without the key; the first three deployments end in \<^verbatim>\<open>&\<close>.\<close>

definition deploy_roles :: "variables \<Rightarrow> job list" where
  "deploy_roles env =
     [Foreground [''printf'', backslash_n @ ''Deploying roles to UAT and Prod'' @ backslash_n],
      Background (cfn_deploy ''templates/CodePipelineCrossAccountRole.yml''
        ''CodePipelineCrossAccountRole'' ''uat''
        (split_words (''ToolsAccountID='' @ expand env ''TOOLS_ACCOUNT_ID'') @ [''Stage=Uat''])),
      Background (cfn_deploy ''templates/CloudFormationDeploymentRole.yml''
        ''CloudFormationDeploymentRole'' ''uat''
        (split_words (''ToolsAccountID='' @ expand env ''TOOLS_ACCOUNT_ID'') @ [''Stage=Uat''])),
      Background (cfn_deploy ''templates/CodePipelineCrossAccountRole.yml''
        ''CodePipelineCrossAccountRole'' ''prod''
        (split_words (''ToolsAccountID='' @ expand env ''TOOLS_ACCOUNT_ID'') @ [''Stage=Prod''])),
      Foreground (cfn_deploy ''templates/CloudFormationDeploymentRole.yml''
        ''CloudFormationDeploymentRole'' ''prod''
        (split_words (''ToolsAccountID='' @ expand env ''TOOLS_ACCOUNT_ID'') @ [''Stage=Prod'']))]"

text \<open>Lines 61 to 66.\<close>

definition deploy_repository_stack :: "job list" where
  "deploy_repository_stack =
     [Foreground [''printf'', backslash_n @ ''Deploying Repository Stack'' @ backslash_n],
      Foreground [''npm'', ''install''],
      Foreground [''npm'', ''audit'', ''fix''],
      Foreground [''npm'', ''run'', ''build''],
      Foreground [''cdk'', ''synth''],
      Foreground [''cdk'', ''deploy'', ''RepositoryStack'', em_dash @ ''profile'', ''pipeline'']]"

text \<open>Lines 69 to 80: the pipeline stack, its output kept in a file, and the extraction.\<close>

definition CDK_OUTPUT_FILE :: string where
  "CDK_OUTPUT_FILE = ''.cdk_output''"

definition deploy_pipeline_stack :: "variables \<Rightarrow> job list" where
  "deploy_pipeline_stack env =
     [Foreground [''printf'',
        backslash_n @ ''Deploying Cross-Account Deployment Pipeline Stack'' @ backslash_n],
      Foreground [''rm'', ''-rf'', CDK_OUTPUT_FILE, ''.cfn_outputs''],
      Foreground ([''npx'', ''cdk'', ''deploy'', ''CrossAccountPipelineStack'', ''--context'']
        @ split_words (''prod-account='' @ expand env ''PROD_ACCOUNT_ID'')
        @ [''--context'']
        @ split_words (''uat-account='' @ expand env ''UAT_ACCOUNT_ID'')
        @ [em_dash @ ''profile'', ''pipeline'', ''--require-approval'', ''never'', ''2>&1'',
           ''|'', ''tee'', ''-a'', CDK_OUTPUT_FILE]),
      Foreground [''sed'', ''-n'', ''-e'', ''/Outputs:/,/^$/ p'', CDK_OUTPUT_FILE, ''>'',
        ''.cfn_outputs''],
      Foreground [''awk'', ''-F'', '' '', ''/KeyArn/ { print $3 }'', ''.cfn_outputs'']]"

definition KEY_ARN :: "world \<Rightarrow> string" where
  "KEY_ARN w =
     (let fs1 = rm_rf [CDK_OUTPUT_FILE, ''.cfn_outputs''] (files w);
          fs2 = tee_a CDK_OUTPUT_FILE (cdk_deploy_output w) fs1;
          fs3 = redirect ''.cfn_outputs'' (sed_Outputs (read_file fs2 CDK_OUTPUT_FILE)) fs2
      in command_substitution (awk_KeyArn (read_file fs3 ''.cfn_outputs'')))"

text \<open>Lines 83 to 86.\<close>

definition key_arn_missing :: "job list" where
  "key_arn_missing =
     [Foreground [''printf'', backslash_n @
        ''Something went wrong - we didn't get a Key ARN as an output from the CDK Pipeline deployment'']]"

text \<open>Lines 89 to 112: the roles again, with the key; the first three end in \<^verbatim>\<open>&\<close>.\<close>

definition update_roles :: "variables \<Rightarrow> string \<Rightarrow> job list" where
  "update_roles env key =
     [Foreground [''printf'',
        backslash_n @ ''Updating roles with policies in UAT and Prod'' @ backslash_n],
      Background (cfn_deploy ''templates/CodePipelineCrossAccountRole.yml''
        ''CodePipelineCrossAccountRole'' ''uat''
        (split_words (''ToolsAccountID='' @ expand env ''TOOLS_ACCOUNT_ID'') @ [''Stage=Uat'']
         @ split_words (''KeyArn='' @ key))),
      Background (cfn_deploy ''templates/CloudFormationDeploymentRole.yml''
        ''CloudFormationDeploymentRole'' ''uat''
        (split_words (''ToolsAccountID='' @ expand env ''TOOLS_ACCOUNT_ID'') @ [''Stage=Uat'']
         @ split_words (''KeyArn='' @ key))),
      Background (cfn_deploy ''templates/CloudFormationDeploymentRole.yml''
        ''CloudFormationDeploymentRole'' ''prod''
        (split_words (''ToolsAccountID='' @ expand env ''TOOLS_ACCOUNT_ID'') @ [''Stage=Prod'']
         @ split_words (''KeyArn='' @ key))),
      Foreground (cfn_deploy ''templates/CodePipelineCrossAccountRole.yml''
        ''CodePipelineCrossAccountRole'' ''prod''
        (split_words (''ToolsAccountID='' @ expand env ''TOOLS_ACCOUNT_ID'') @ [''Stage=Prod'']
         @ split_words (''KeyArn='' @ key)))]"

text \<open>
  Lines 115 to 118. In a list \<^verbatim>\<open>a && b && c\<close> a command runs only when all before it
  returned 0; the next line of the script runs in any case.
\<close>

fun and_list :: "(string list \<Rightarrow> nat) \<Rightarrow> string list list \<Rightarrow> job list" where
  "and_list st [] = []"
| "and_list st (c # cs) = Foreground c # (if st c = 0 then and_list st cs else [])"

definition commit_code :: "variables \<Rightarrow> (string list \<Rightarrow> nat) \<Rightarrow> job list" where
  "commit_code env st =
     [Foreground [''printf'', backslash_n @ ''Committing code to repository'' @ backslash_n]]
     @ and_list st
        [[''git'', ''init''], [''git'', ''branch'', ''-m'', ''main''], [''git'', ''add'', ''.''],
         [''git'', ''commit'', ''-m'', ''Initial commit''], [''git'', ''remote'', ''rm'', ''origin'']]
     @ [Foreground ([''git'', ''remote'', ''add'', ''origin''] @ split_words
          (''https://git-codecommit.us-west-2.amazonaws.com/v1/repos/repo-''
           @ expand env ''TOOLS_ACCOUNT_ID''))]
     @ and_list st
        [[''git'', ''config'', ''main.remove'', ''origin''],
         [''git'', ''config'', ''main.merge'', ''refs/heads/main''],
         [''git'', ''push'', ''--set-upstream'', ''origin'', ''main'']]"

text \<open>Lines 121 to 128.\<close>

definition show_endpoints :: "job list" where
  "show_endpoints =
     [Foreground [''printf'', backslash_n @
        ''Use the following commands to get the Endpoints for deployed environemnts: ''],
      Foreground [''printf'', backslash_n @
        ''  aws cloudformation describe-stacks --stack-name UatApplicationDeploymentStack   --profile uat | grep OutputValue''],
      Foreground [''printf'', backslash_n @
        ''  aws cloudformation describe-stacks --stack-name ProdApplicationDeploymentStack   --profile prod | grep OutputValue'']]"

definition clean_up :: "job list" where
  "clean_up = [Foreground [''rm'', CDK_OUTPUT_FILE, ''.cfn_outputs'']]"

text \<open>
  The whole script: the jobs it dispatches, in order. Each \<^verbatim>\<open>exit\<close> ends the list.
\<close>

definition automate_deployment :: "variables \<Rightarrow> world \<Rightarrow> job list" where
  "automate_deployment env w =
     (if accounts_missing env then please_set_accounts env
      else deploy_roles env @ deploy_repository_stack @ deploy_pipeline_stack env @
        (if KEY_ARN w = [] then key_arn_missing
         else update_roles env (KEY_ARN w) @ commit_code env (exit_status w)
              @ show_endpoints @ clean_up))"

text \<open>Kinds of command lines.\<close>

definition is_cfn_deploy :: "string list \<Rightarrow> bool" where
  "is_cfn_deploy c \<longleftrightarrow> take 3 c = [''aws'', ''cloudformation'', ''deploy'']"

definition is_cdk_deploy :: "string list \<Rightarrow> bool" where
  "is_cdk_deploy c \<longleftrightarrow>
     take 2 c = [''cdk'', ''deploy''] \<or> take 3 c = [''npx'', ''cdk'', ''deploy'']"

definition is_git_push :: "string list \<Rightarrow> bool" where
  "is_git_push c \<longleftrightarrow> take 2 c = [''git'', ''push'']"

definition is_deployment :: "string list \<Rightarrow> bool" where
  "is_deployment c \<longleftrightarrow> is_cfn_deploy c \<or> is_cdk_deploy c"

definition is_printf :: "string list \<Rightarrow> bool" where
  "is_printf c \<longleftrightarrow> take 1 c = [''printf'']"

text \<open>The word after an option of a command line, and the words after the last option.\<close>

fun option_value :: "string \<Rightarrow> string list \<Rightarrow> string option" where
  "option_value f (x # y # r) = (if x = f then Some y else option_value f (y # r))"
| "option_value f r = None"

fun words_after :: "string \<Rightarrow> string list \<Rightarrow> string list" where
  "words_after f [] = []"
| "words_after f (x # r) = (if x = f then r else words_after f r)"


section \<open>Executions of the script: foreground and background jobs\<close>

text \<open>
  The shell starts the jobs of the script in order. After starting a foreground job it
  blocks until that job ends; after starting a background job it goes on at once. A
  running background job ends at any later moment, or not before the script does. An
  event records the start of a job or its end with its exit status.
\<close>

datatype event = Started job | Finished job nat

record shell =
  todo :: "job list"
  waiting :: "job option"
  running :: "job list"

fun step :: "(string list \<Rightarrow> nat) \<Rightarrow> shell \<Rightarrow> event \<Rightarrow> shell option" where
  "step st s (Started j) =
     (case waiting s of
        Some f \<Rightarrow> None
      | None \<Rightarrow>
         (case todo s of
            [] \<Rightarrow> None
          | j' # rest \<Rightarrow>
             if j \<noteq> j' then None
             else (case j of
                 Foreground c \<Rightarrow> Some (s\<lparr>todo := rest, waiting := Some j\<rparr>)
               | Background c \<Rightarrow> Some (s\<lparr>todo := rest, running := j # running s\<rparr>))))"
| "step st s (Finished j n) =
     (if n \<noteq> st (cmd j) then None
      else (case j of
          Foreground c \<Rightarrow> if waiting s = Some j then Some (s\<lparr>waiting := None\<rparr>) else None
        | Background c \<Rightarrow>
            if j \<in> set (running s) then Some (s\<lparr>running := remove1 j (running s)\<rparr>)
            else None))"

fun run :: "(string list \<Rightarrow> nat) \<Rightarrow> shell \<Rightarrow> event list \<Rightarrow> shell option" where
  "run st s [] = Some s"
| "run st s (e # es) = (case step st s e of None \<Rightarrow> None | Some s' \<Rightarrow> run st s' es)"

definition start :: "job list \<Rightarrow> shell" where
  "start js = \<lparr>todo = js, waiting = None, running = []\<rparr>"

definition execution :: "(string list \<Rightarrow> nat) \<Rightarrow> job list \<Rightarrow> event list \<Rightarrow> bool" where
  "execution st js tr \<longleftrightarrow> run st (start js) tr \<noteq> None"

text \<open>
  The events the shell itself orders: every start, and the end of a foreground job.
  \<open>script_events\<close> is their order for a list of jobs.
\<close>

fun ordered :: "event \<Rightarrow> bool" where
  "ordered (Started j) = True"
| "ordered (Finished (Foreground c) n) = True"
| "ordered (Finished (Background c) n) = False"

fun job_events :: "(string list \<Rightarrow> nat) \<Rightarrow> job \<Rightarrow> event list" where
  "job_events st (Foreground c) = [Started (Foreground c), Finished (Foreground c) (st c)]"
| "job_events st (Background c) = [Started (Background c)]"

definition script_events :: "(string list \<Rightarrow> nat) \<Rightarrow> job list \<Rightarrow> event list" where
  "script_events st js = concat (map (job_events st) js)"

definition pending_events :: "(string list \<Rightarrow> nat) \<Rightarrow> shell \<Rightarrow> event list" where
  "pending_events st s =
     (case waiting s of None \<Rightarrow> [] | Some j \<Rightarrow> [Finished j (st (cmd j))])
     @ script_events st (todo s)"

definition waits_on_foreground :: "shell \<Rightarrow> bool" where
  "waits_on_foreground s \<longleftrightarrow>
     (case waiting s of None \<Rightarrow> True | Some (Foreground c) \<Rightarrow> True | Some (Background c) \<Rightarrow> False)"

text \<open>
  The barrier of the specification, as a test of a trace: whenever a deployment that
  is not one of the jobs \<open>p1\<close> starts, every job of \<open>p1\<close> has ended with status 0.
\<close>

definition succeeded :: "event list \<Rightarrow> job \<Rightarrow> bool" where
  "succeeded seen j \<longleftrightarrow> Finished j 0 \<in> set seen"

fun joined_before :: "job list \<Rightarrow> event list \<Rightarrow> event list \<Rightarrow> bool" where
  "joined_before p1 seen [] = True"
| "joined_before p1 seen (Started j # es) =
     ((if is_deployment (cmd j) \<and> j \<notin> set p1 then list_all (succeeded seen) p1 else True)
      \<and> joined_before p1 (seen @ [Started j]) es)"
| "joined_before p1 seen (Finished j n # es) = joined_before p1 (seen @ [Finished j n]) es"

text \<open>
  The abort rule of the specification, as a test of the jobs dispatched: after a
  deployment with a non-zero exit status no deployment and no push follows.
\<close>

fun aborts_on_failure :: "(string list \<Rightarrow> nat) \<Rightarrow> job list \<Rightarrow> bool" where
  "aborts_on_failure st [] = True"
| "aborts_on_failure st (j # js) =
     ((if is_deployment (cmd j) \<and> st (cmd j) \<noteq> 0
       then list_all (\<lambda>k. \<not> is_deployment (cmd k) \<and> \<not> is_git_push (cmd k)) js else True)
      \<and> aborts_on_failure st js)"

subsection \<open>Sample inputs\<close>

definition sample_accounts :: variables where
  "sample_accounts =
     [''TOOLS_ACCOUNT_ID'' \<mapsto> ''111'', ''UAT_ACCOUNT_ID'' \<mapsto> ''222'',
      ''PROD_ACCOUNT_ID'' \<mapsto> ''333'']"

definition no_uat_account :: variables where
  "no_uat_account = [''TOOLS_ACCOUNT_ID'' \<mapsto> ''111'', ''PROD_ACCOUNT_ID'' \<mapsto> ''333'']"

definition sample_output :: string where
  "sample_output =
     '' CrossAccountPipelineStack'' @ [newline] @ [newline]
     @ ''Outputs:'' @ [newline]
     @ ''CrossAccountPipelineStack.ArtifactBucketEncryptionKeyArn = arn:aws:kms:us-west-2:111:key/abc''
     @ [newline] @ [newline]
     @ ''Stack ARN:'' @ [newline]"

definition output_without_key :: string where
  "output_without_key = ''CrossAccountPipelineStack failed: Error'' @ [newline]"

definition spec_sample :: string where
  "spec_sample = ''Outputs:'' @ [newline] @ ''  ... KeyArn   abcd1234 ...'' @ [newline, newline]"

definition two_sections :: string where
  "two_sections =
     ''Outputs:'' @ [newline, newline] @ ''Outputs:'' @ [newline] @ ''Stack.KeyArn = x'' @ [newline]"

definition key_arn_in_value :: string where
  "key_arn_in_value =
     ''Outputs:'' @ [newline] @ ''Stack.BucketName = KeyArnBucket'' @ [newline, newline]"

definition all_succeed :: world where
  "all_succeed = \<lparr>exit_status = (\<lambda>c. 0), cdk_deploy_output = sample_output, files = Map.empty\<rparr>"

definition key_not_published :: world where
  "key_not_published =
     \<lparr>exit_status = (\<lambda>c. 0), cdk_deploy_output = output_without_key, files = Map.empty\<rparr>"

definition prod_role_fails :: world where
  "prod_role_fails =
     \<lparr>exit_status = (\<lambda>c. if c = cmd (deploy_roles sample_accounts ! 4) then 1 else 0),
      cdk_deploy_output = sample_output, files = Map.empty\<rparr>"

text \<open>
  A run in which the foreground role deployment fails, the three background ones are
  still running, and the script goes on to \<^verbatim>\<open>cdk deploy RepositoryStack\<close>.
\<close>

definition early_cdk_deploy :: "event list" where
  "early_cdk_deploy =
     (let r = deploy_roles sample_accounts; s = deploy_repository_stack in
      [Started (r ! 0), Finished (r ! 0) 0,
       Started (r ! 1), Started (r ! 2), Started (r ! 3),
       Started (r ! 4), Finished (r ! 4) 1,
       Started (s ! 0), Finished (s ! 0) 0,
       Started (s ! 1), Finished (s ! 1) 0,
       Started (s ! 2), Finished (s ! 2) 0,
       Started (s ! 3), Finished (s ! 3) 0,
       Started (s ! 4), Finished (s ! 4) 0,
       Started (s ! 5)])"


section \<open>The role a deployment creates\<close>

text \<open>
  Modelled from the spec: the templates \<^verbatim>\<open>templates/*.yml\<close> are not among the sources.
  The specification gives the identifier of a deployed role as
  \<^verbatim>\<open>arn:...:role/<RoleKindName>\<close>, a function of the account and the role kind and
  independent of the key. The account is the one behind the \<^verbatim>\<open>--profile\<close> of the command
  (a parameter: the credentials file), the role kind is fixed by the template (a
  parameter: the template's content).
\<close>

definition role_identifier ::
  "(string option \<Rightarrow> string) \<Rightarrow> (string option \<Rightarrow> string) \<Rightarrow> string list \<Rightarrow> string" where
  "role_identifier account_of role_kind c =
     ''arn:aws:iam::'' @ account_of (option_value ''--profile'' c) @ '':role/''
     @ role_kind (option_value ''--template-file'' c)"

section \<open>The application stack\<close>

text \<open>
  \<^verbatim>\<open>lib/application-stack.ts\<close>. A stack is the constructs its constructor declares, each
  with its construct id and the properties passed to it. A construct passed to another
  one is referred to by its construct id. Values of the construct library
  (\<^verbatim>\<open>lambda.Runtime.NODEJS_LATEST\<close> and the like) stand as their names.
\<close>

record ApplicationStackProps =
  stageName :: string

datatype lambda_code = fromCfnParameters

datatype lambda_version = currentVersion string

record lambda_function =
  function_id :: string
  functionName :: string
  code :: lambda_code
  handler :: string
  runtime :: string
  environment :: "(string \<times> string) list"

record lambda_rest_api =
  api_id :: string
  api_handler :: string
  endpointExportName :: string
  deployOptions_stageName :: string

record lambda_alias =
  alias_id :: string
  aliasName :: string
  version :: lambda_version

record lambda_deployment_group =
  group_id :: string
  group_alias :: string
  deploymentConfig :: string

record application_stack =
  stack_id :: string
  lambdaCode :: lambda_code
  func :: lambda_function
  restApi :: lambda_rest_api
  lambdaAlias :: lambda_alias
  deploymentGroup :: lambda_deployment_group

definition ApplicationStack :: "string \<Rightarrow> ApplicationStackProps \<Rightarrow> application_stack" where
  "ApplicationStack id' props =
     (let lambdaCode = fromCfnParameters;
          func = \<lparr>function_id = ''Lambda'',
                  functionName = ''HelloLambda'',
                  code = lambdaCode,
                  handler = ''index.handler'',
                  runtime = ''NODEJS_LATEST'',
                  environment = [(''STAGE_NAME'', stageName props)]\<rparr>;
          api = \<lparr>api_id = ''HelloLambdaRestApi'',
                 api_handler = function_id func,
                 endpointExportName = ''HelloLambdaRestApiEmdpoint'',
                 deployOptions_stageName = stageName props\<rparr>;
          version = currentVersion (function_id func);
          alias = \<lparr>alias_id = ''LambdaAlias'',
                   aliasName = stageName props,
                   version = version\<rparr>;
          grp = \<lparr>group_id = ''DeploymentGroup'',
                 group_alias = alias_id alias,
                 deploymentConfig = ''LambdaDeploymentConfig.ALL_AT_ONCE''\<rparr>
      in \<lparr>stack_id = id', lambdaCode = lambdaCode, func = func, restApi = api,
          lambdaAlias = alias, deploymentGroup = grp\<rparr>)"

text \<open>The three places of an application stack that hold the stage name.\<close>

definition with_stage :: "string \<Rightarrow> application_stack \<Rightarrow> application_stack" where
  "with_stage s st =
     st\<lparr>func := (func st)\<lparr>environment := [(''STAGE_NAME'', s)]\<rparr>,
        restApi := (restApi st)\<lparr>deployOptions_stageName := s\<rparr>,
        lambdaAlias := (lambdaAlias st)\<lparr>aliasName := s\<rparr>\<rparr>"

section \<open>The pipeline stack, in its two variants\<close>

datatype json = JString string | JArray "json list" | JObject "(string \<times> json) list"

record PipelineStackProps =
  uatApplicationStack :: application_stack
  uatAccountId :: "string option"
  prodApplicationStack :: application_stack
  prodAccountId :: "string option"

text \<open>
  A property typed \<^verbatim>\<open>string\<close> holds \<^verbatim>\<open>undefined\<close> when the caller had no value for it;
  a template literal prints that as \<^verbatim>\<open>undefined\<close>.
\<close>

definition template_string :: "string option \<Rightarrow> string" where
  "template_string v = (case v of None \<Rightarrow> ''undefined'' | Some s \<Rightarrow> s)"

datatype codecommit_repository = fromRepositoryName string string

record imported_role =
  role_id :: string
  roleArn :: string
  mutable :: bool

datatype grantee = AccountPrincipal "string option" | Role imported_role

record kms_key =
  key_id :: string
  key_alias :: string

record s3_bucket =
  bucket_id :: string
  bucketName :: string
  removalPolicy :: string
  encryption :: string
  bucket_encryptionKey :: string

record pipeline_project =
  project_id :: string
  buildSpec :: json
  buildImage :: string
  encryptionKey :: string

datatype artifact = Artifact "string option"

datatype artifact_path = atPath artifact string

datatype s3_location = s3Location artifact

datatype parameter_overrides = assign lambda_code s3_location

record codecommit_source_action =
  source_actionName :: string
  repository :: codecommit_repository
  source_output :: artifact
  branch :: string

record codebuild_action =
  build_actionName :: string
  project :: string
  build_input :: artifact
  build_outputs :: "artifact list"

record cloudformation_create_update_stack_action =
  actionName :: string
  templatePath :: artifact_path
  stackName :: string
  adminPermissions :: bool
  parameterOverrides :: parameter_overrides
  extraInputs :: "artifact list"
  cfnCapabilities :: "string list"
  role :: imported_role
  deploymentRole :: imported_role

datatype action =
    CodeCommitSourceAction codecommit_source_action
  | CodeBuildAction codebuild_action
  | CloudFormationCreateUpdateStackAction cloudformation_create_update_stack_action

record stage =
  stage_name :: string
  actions :: "action list"

record codepipeline =
  pipeline_id :: string
  pipelineName :: string
  artifactBucket :: string
  stages :: "stage list"

record policy_statement =
  statement_actions :: "string list"
  resources :: "string list"

datatype token = keyArn string

record cfn_output =
  output_id :: string
  output_value :: token
  exportName :: string

record pipeline_stack =
  pipeline_stack_id :: string
  codeCommitRepo :: codecommit_repository
  key :: kms_key
  key_grantDecrypt :: "grantee list"
  bucket :: s3_bucket
  bucket_grants :: "(string \<times> grantee) list"
  cdkBuild :: pipeline_project
  lambdaBuild :: pipeline_project
  pipeline :: codepipeline
  pipeline_addToRolePolicy :: "policy_statement list"
  cfn_outputs :: "cfn_output list"


text \<open>
  The variant importing the construct library from \<^verbatim>\<open>aws-cdk-lib\<close>. The first argument is
  \<^verbatim>\<open>this.account\<close>, which the base class \<^verbatim>\<open>Stack\<close> of the library supplies.
\<close>

definition PipelineStack :: "string \<Rightarrow> string \<Rightarrow> PipelineStackProps \<Rightarrow> pipeline_stack" where
  "PipelineStack account id' props =
     (let repository = fromRepositoryName ''CodeCommitRepo'' (''repo-'' @ account);
          uatCloudFormationRole =
            \<lparr>role_id = ''UatDeploymentRole'',
             roleArn = ''arn:aws:iam::'' @ template_string (uatAccountId props)
                       @ '':role/CloudFormationDeploymentRole'',
             mutable = False\<rparr>;
          uatCodePipelineRole =
            \<lparr>role_id = ''UatCrossAccountRole'',
             roleArn = ''arn:aws:iam::'' @ template_string (uatAccountId props)
                       @ '':role/CodePipelineCrossAccountRole'',
             mutable = False\<rparr>;
          prodCloudFormationRole =
            \<lparr>role_id = ''ProdDeploymentRole'',
             roleArn = ''arn:aws:iam::'' @ template_string (prodAccountId props)
                       @ '':role/CloudFormationDeploymentRole'',
             mutable = False\<rparr>;
          prodCodeDeployRole =
            \<lparr>role_id = ''ProdCrossAccountRole'',
             roleArn = ''arn:aws:iam::'' @ template_string (prodAccountId props)
                       @ '':role/CodePipelineCrossAccountRole'',
             mutable = False\<rparr>;
          uatAccountRootPrincipal = AccountPrincipal (uatAccountId props);
          prodAccountRootPrincipal = AccountPrincipal (prodAccountId props);
          key = \<lparr>key_id = ''ArtifactKey'', key_alias = ''key/pipeline-artifact-key''\<rparr>;
          artifactBucket =
            \<lparr>bucket_id = ''ArtifactBucket'',
             bucketName = ''artifact-bucket-'' @ account,
             removalPolicy = ''RemovalPolicy.DESTROY'',
             encryption = ''BucketEncryption.KMS'',
             bucket_encryptionKey = key_id key\<rparr>;
          cdkBuild =
            \<lparr>project_id = ''CdkBuild'',
             buildSpec = JObject
               [(''version'', JString ''0.2''),
                (''phases'', JObject
                  [(''install'', JObject [(''commands'', JArray [JString ''npm install''])]),
                   (''build'', JObject [(''commands'', JArray
                      [JString ''npm run build'', JString ''npm run cdk synth -- -o dist''])])]),
                (''artifacts'', JObject
                  [(''base-directory'', JString ''dist''),
                   (''files'', JArray [JString ''*ApplicationStack.template.json''])])],
             buildImage = ''LinuxBuildImage.AMAZON_LINUX_2_3'',
             encryptionKey = key_id key\<rparr>;
          lambdaBuild =
            \<lparr>project_id = ''LambdaBuild'',
             buildSpec = JObject
               [(''version'', JString ''0.2''),
                (''phases'', JObject
                  [(''install'', JObject [(''commands'', JArray
                      [JString ''cd app'', JString ''npm install''])]),
                   (''build'', JObject [(''commands'', JString ''npm run build'')])]),
                (''artifacts'', JObject
                  [(''base-directory'', JString ''app''),
                   (''files'', JArray [JString ''index.js'', JString ''node_modules/**/*''])])],
             buildImage = ''LinuxBuildImage.AMAZON_LINUX_2_3'',
             encryptionKey = key_id key\<rparr>;
          sourceOutput = Artifact None;
          cdkBuildOutput = Artifact (Some ''CdkBuildOutput'');
          lambdaBuildOutput = Artifact (Some ''LambdaBuildOutput'');
          pipeline =
            \<lparr>pipeline_id = ''Pipeline'',
             pipelineName = ''CrossAccountPipeline'',
             artifactBucket = bucket_id artifactBucket,
             stages =
               [\<lparr>stage_name = ''Source'',
                 actions =
                   [CodeCommitSourceAction
                      \<lparr>source_actionName = ''CodeCommit_Source'',
                       repository = repository,
                       source_output = sourceOutput,
                       branch = ''main''\<rparr>]\<rparr>,
                \<lparr>stage_name = ''Build'',
                 actions =
                   [CodeBuildAction
                      \<lparr>build_actionName = ''Application_Build'',
                       project = project_id lambdaBuild,
                       build_input = sourceOutput,
                       build_outputs = [lambdaBuildOutput]\<rparr>,
                    CodeBuildAction
                      \<lparr>build_actionName = ''CDK_Synth'',
                       project = project_id cdkBuild,
                       build_input = sourceOutput,
                       build_outputs = [cdkBuildOutput]\<rparr>]\<rparr>,
                \<lparr>stage_name = ''Deploy_Uat'',
                 actions =
                   [CloudFormationCreateUpdateStackAction
                      \<lparr>actionName = ''Deploy'',
                       templatePath = atPath cdkBuildOutput ''UatApplicationStack.template.json'',
                       stackName = ''UatApplicationDeploymentStack'',
                       adminPermissions = False,
                       parameterOverrides =
                         assign (lambdaCode (uatApplicationStack props))
                           (s3Location lambdaBuildOutput),
                       extraInputs = [lambdaBuildOutput],
                       cfnCapabilities = [''CfnCapabilities.ANONYMOUS_IAM''],
                       role = uatCodePipelineRole,
                       deploymentRole = uatCloudFormationRole\<rparr>]\<rparr>,
                \<lparr>stage_name = ''Deploy_Prod'',
                 actions =
                   [CloudFormationCreateUpdateStackAction
                      \<lparr>actionName = ''Deploy'',
                       templatePath = atPath cdkBuildOutput ''ProdApplicationStack.template.json'',
                       stackName = ''ProdApplicationDeploymentStack'',
                       adminPermissions = False,
                       parameterOverrides =
                         assign (lambdaCode (prodApplicationStack props))
                           (s3Location lambdaBuildOutput),
                       extraInputs = [lambdaBuildOutput],
                       cfnCapabilities = [''CfnCapabilities.ANONYMOUS_IAM''],
                       role = prodCodeDeployRole,
                       deploymentRole = prodCloudFormationRole\<rparr>]\<rparr>]\<rparr>
      in \<lparr>pipeline_stack_id = id',
          codeCommitRepo = repository,
          key = key,
          key_grantDecrypt =
            [uatAccountRootPrincipal, Role uatCodePipelineRole,
             prodAccountRootPrincipal, Role prodCodeDeployRole],
          bucket = artifactBucket,
          bucket_grants =
            [(''grantPut'', uatAccountRootPrincipal), (''grantRead'', uatAccountRootPrincipal),
             (''grantPut'', prodAccountRootPrincipal), (''grantRead'', prodAccountRootPrincipal)],
          cdkBuild = cdkBuild,
          lambdaBuild = lambdaBuild,
          pipeline = pipeline,
          pipeline_addToRolePolicy =
            [\<lparr>statement_actions = [''sts:AssumeRole''],
              resources =
                [''arn:aws:iam::'' @ template_string (uatAccountId props) @ '':role/*'',
                 ''arn:aws:iam::'' @ template_string (prodAccountId props) @ '':role/*'']\<rparr>],
          cfn_outputs =
            [\<lparr>output_id = ''ArtifactBucketEncryptionKeyArn'',
              output_value = keyArn (key_id key),
              exportName = ''ArtifactBucketEncryptionKey''\<rparr>]\<rparr>)"

text \<open>
  The variant importing the construct library from \<^verbatim>\<open>@aws-cdk/*\<close>. The first argument is
  \<^verbatim>\<open>this.account\<close>, which the base class \<^verbatim>\<open>Stack\<close> of the library supplies.
\<close>

definition PipelineStack_admin :: "string \<Rightarrow> string \<Rightarrow> PipelineStackProps \<Rightarrow> pipeline_stack" where
  "PipelineStack_admin account id' props =
     (let repository = fromRepositoryName ''CodeCommitRepo'' (''repo-'' @ account);
          uatCloudFormationRole =
            \<lparr>role_id = ''UatDeploymentRole'',
             roleArn = ''arn:aws:iam::'' @ template_string (uatAccountId props)
                       @ '':role/CloudFormationDeploymentRole'',
             mutable = False\<rparr>;
          uatCodePipelineRole =
            \<lparr>role_id = ''UatCrossAccountRole'',
             roleArn = ''arn:aws:iam::'' @ template_string (uatAccountId props)
                       @ '':role/CodePipelineCrossAccountRole'',
             mutable = False\<rparr>;
          prodCloudFormationRole =
            \<lparr>role_id = ''ProdDeploymentRole'',
             roleArn = ''arn:aws:iam::'' @ template_string (prodAccountId props)
                       @ '':role/CloudFormationDeploymentRole'',
             mutable = False\<rparr>;
          prodCodeDeployRole =
            \<lparr>role_id = ''ProdCrossAccountRole'',
             roleArn = ''arn:aws:iam::'' @ template_string (prodAccountId props)
                       @ '':role/CodePipelineCrossAccountRole'',
             mutable = False\<rparr>;
          uatAccountRootPrincipal = AccountPrincipal (uatAccountId props);
          prodAccountRootPrincipal = AccountPrincipal (prodAccountId props);
          key = \<lparr>key_id = ''ArtifactKey'', key_alias = ''key/pipeline-artifact-key''\<rparr>;
          artifactBucket =
            \<lparr>bucket_id = ''ArtifactBucket'',
             bucketName = ''artifact-bucket-'' @ account,
             removalPolicy = ''RemovalPolicy.DESTROY'',
             encryption = ''BucketEncryption.KMS'',
             bucket_encryptionKey = key_id key\<rparr>;
          cdkBuild =
            \<lparr>project_id = ''CdkBuild'',
             buildSpec = JObject
               [(''version'', JString ''0.2''),
                (''phases'', JObject
                  [(''install'', JObject [(''commands'', JArray [JString ''npm install''])]),
                   (''build'', JObject [(''commands'', JArray
                      [JString ''npm run build'', JString ''npm run cdk synth -- -o dist''])])]),
                (''artifacts'', JObject
                  [(''base-directory'', JString ''dist''),
                   (''files'', JArray [JString ''*ApplicationStack.template.json''])])],
             buildImage = ''LinuxBuildImage.AMAZON_LINUX_2_3'',
             encryptionKey = key_id key\<rparr>;
          lambdaBuild =
            \<lparr>project_id = ''LambdaBuild'',
             buildSpec = JObject
               [(''version'', JString ''0.2''),
                (''phases'', JObject
                  [(''install'', JObject [(''commands'', JArray
                      [JString ''cd app'', JString ''npm install''])]),
                   (''build'', JObject [(''commands'', JString ''npm run build'')])]),
                (''artifacts'', JObject
                  [(''base-directory'', JString ''app''),
                   (''files'', JArray [JString ''index.js'', JString ''node_modules/**/*''])])],
             buildImage = ''LinuxBuildImage.AMAZON_LINUX_2_3'',
             encryptionKey = key_id key\<rparr>;
          sourceOutput = Artifact None;
          cdkBuildOutput = Artifact (Some ''CdkBuildOutput'');
          lambdaBuildOutput = Artifact (Some ''LambdaBuildOutput'');
          pipeline =
            \<lparr>pipeline_id = ''Pipeline'',
             pipelineName = ''CrossAccountPipeline'',
             artifactBucket = bucket_id artifactBucket,
             stages =
               [\<lparr>stage_name = ''Source'',
                 actions =
                   [CodeCommitSourceAction
                      \<lparr>source_actionName = ''CodeCommit_Source'',
                       repository = repository,
                       source_output = sourceOutput,
                       branch = ''main''\<rparr>]\<rparr>,
                \<lparr>stage_name = ''Build'',
                 actions =
                   [CodeBuildAction
                      \<lparr>build_actionName = ''Application_Build'',
                       project = project_id lambdaBuild,
                       build_input = sourceOutput,
                       build_outputs = [lambdaBuildOutput]\<rparr>,
                    CodeBuildAction
                      \<lparr>build_actionName = ''CDK_Synth'',
                       project = project_id cdkBuild,
                       build_input = sourceOutput,
                       build_outputs = [cdkBuildOutput]\<rparr>]\<rparr>,
                \<lparr>stage_name = ''Deploy_Uat'',
                 actions =
                   [CloudFormationCreateUpdateStackAction
                      \<lparr>actionName = ''Deploy'',
                       templatePath = atPath cdkBuildOutput ''UatApplicationStack.template.json'',
                       stackName = ''UatApplicationDeploymentStack'',
                       adminPermissions = True,
                       parameterOverrides =
                         assign (lambdaCode (uatApplicationStack props))
                           (s3Location lambdaBuildOutput),
                       extraInputs = [lambdaBuildOutput],
                       cfnCapabilities = [''CfnCapabilities.ANONYMOUS_IAM''],
                       role = uatCodePipelineRole,
                       deploymentRole = uatCloudFormationRole\<rparr>]\<rparr>,
                \<lparr>stage_name = ''Deploy_Prod'',
                 actions =
                   [CloudFormationCreateUpdateStackAction
                      \<lparr>actionName = ''Deploy'',
                       templatePath = atPath cdkBuildOutput ''ProdApplicationStack.template.json'',
                       stackName = ''ProdApplicationDeploymentStack'',
                       adminPermissions = True,
                       parameterOverrides =
                         assign (lambdaCode (prodApplicationStack props))
                           (s3Location lambdaBuildOutput),
                       extraInputs = [lambdaBuildOutput],
                       cfnCapabilities = [''CfnCapabilities.ANONYMOUS_IAM''],
                       role = prodCodeDeployRole,
                       deploymentRole = prodCloudFormationRole\<rparr>]\<rparr>]\<rparr>
      in \<lparr>pipeline_stack_id = id',
          codeCommitRepo = repository,
          key = key,
          key_grantDecrypt =
            [uatAccountRootPrincipal, Role uatCodePipelineRole,
             prodAccountRootPrincipal, Role prodCodeDeployRole],
          bucket = artifactBucket,
          bucket_grants =
            [(''grantPut'', uatAccountRootPrincipal), (''grantRead'', uatAccountRootPrincipal),
             (''grantPut'', prodAccountRootPrincipal), (''grantRead'', prodAccountRootPrincipal)],
          cdkBuild = cdkBuild,
          lambdaBuild = lambdaBuild,
          pipeline = pipeline,
          pipeline_addToRolePolicy =
            [\<lparr>statement_actions = [''sts:AssumeRole''],
              resources =
                [''arn:aws:iam::'' @ template_string (uatAccountId props) @ '':role/*'',
                 ''arn:aws:iam::'' @ template_string (prodAccountId props) @ '':role/*'']\<rparr>],
          cfn_outputs =
            [\<lparr>output_id = ''ArtifactBucketEncryptionKeyArn'',
              output_value = keyArn (key_id key),
              exportName = ''ArtifactBucketEncryptionKey''\<rparr>]\<rparr>)"

text \<open>
  The flag of the deploy actions: reading it, and setting it on the
  \<^verbatim>\<open>CloudFormationCreateUpdateStackAction\<close>s of the stages \<^verbatim>\<open>Deploy_Uat\<close> and
  \<^verbatim>\<open>Deploy_Prod\<close>.
\<close>

fun admin_flag :: "action \<Rightarrow> bool list" where
  "admin_flag (CloudFormationCreateUpdateStackAction a) = [adminPermissions a]"
| "admin_flag (CodeCommitSourceAction a) = []"
| "admin_flag (CodeBuildAction a) = []"

definition admin_flags :: "pipeline_stack \<Rightarrow> (string \<times> bool list) list" where
  "admin_flags st =
     map (\<lambda>g. (stage_name g, concat (map admin_flag (actions g)))) (stages (pipeline st))"

fun set_admin :: "bool \<Rightarrow> action \<Rightarrow> action" where
  "set_admin b (CloudFormationCreateUpdateStackAction a) =
     CloudFormationCreateUpdateStackAction (a\<lparr>adminPermissions := b\<rparr>)"
| "set_admin b (CodeCommitSourceAction a) = CodeCommitSourceAction a"
| "set_admin b (CodeBuildAction a) = CodeBuildAction a"

definition with_adminPermissions :: "bool \<Rightarrow> pipeline_stack \<Rightarrow> pipeline_stack" where
  "with_adminPermissions b st =
     st\<lparr>pipeline := (pipeline st)\<lparr>stages :=
       map (\<lambda>g. if stage_name g = ''Deploy_Uat'' \<or> stage_name g = ''Deploy_Prod''
                 then g\<lparr>actions := map (set_admin b) (actions g)\<rparr> else g)
           (stages (pipeline st))\<rparr>\<rparr>"

section \<open>The app\<close>

text \<open>
  \<^verbatim>\<open>bin/\<close>: the context and the process environment are maps to strings; a missing
  entry is \<^verbatim>\<open>undefined\<close>. \<^verbatim>\<open>a || b\<close> is \<open>a\<close> when \<open>a\<close> is truthy (a non-empty
  string) and \<open>b\<close> otherwise. The class \<^verbatim>\<open>RepositoryStack\<close> is not among the sources;
  the app keeps the id it is created with. \<open>app\<close> is what the app declares when all
  its constructors return; \<open>new_app\<close> below is the construction itself, which can
  fail.
\<close>

definition truthy :: "string option \<Rightarrow> bool" where
  "truthy v \<longleftrightarrow> (case v of None \<Rightarrow> False | Some s \<Rightarrow> s \<noteq> [])"

definition js_or :: "string option \<Rightarrow> string option \<Rightarrow> string option" where
  "js_or a b = (if truthy a then a else b)"

record cdk_app =
  repositoryStack :: string
  app_uatApplicationStack :: application_stack
  app_prodApplicationStack :: application_stack
  crossAccountPipelineStack :: pipeline_stack

definition app_uatAccountId ::
  "(string \<Rightarrow> string option) \<Rightarrow> (string \<Rightarrow> string option) \<Rightarrow> string option" where
  "app_uatAccountId tryGetContext process_env =
     js_or (js_or (tryGetContext ''uat-account'') (process_env ''CDK_INTEG_ACCOUNT''))
       (process_env ''CDK_DEFAULT_ACCOUNT'')"

definition app_prodAccountId ::
  "(string \<Rightarrow> string option) \<Rightarrow> (string \<Rightarrow> string option) \<Rightarrow> string option" where
  "app_prodAccountId tryGetContext process_env =
     js_or (js_or (tryGetContext ''prod-account'') (process_env ''CDK_INTEG_ACCOUNT''))
       (process_env ''CDK_DEFAULT_ACCOUNT'')"

definition app ::
  "(string \<Rightarrow> string option) \<Rightarrow> (string \<Rightarrow> string option) \<Rightarrow> string \<Rightarrow> cdk_app" where
  "app tryGetContext process_env account =
     (let uatAccountId = app_uatAccountId tryGetContext process_env;
          prodAccountId = app_prodAccountId tryGetContext process_env;
          uatApplicationStack = ApplicationStack ''UatApplicationStack'' \<lparr>stageName = ''uat''\<rparr>;
          prodApplicationStack = ApplicationStack ''ProdApplicationStack'' \<lparr>stageName = ''prod''\<rparr>
      in \<lparr>repositoryStack = ''RepositoryStack'',
          app_uatApplicationStack = uatApplicationStack,
          app_prodApplicationStack = prodApplicationStack,
          crossAccountPipelineStack =
            PipelineStack account ''CrossAccountPipelineStack''
              \<lparr>uatApplicationStack = uatApplicationStack,
               uatAccountId = uatAccountId,
               prodApplicationStack = prodApplicationStack,
               prodAccountId = prodAccountId\<rparr>\<rparr>)"

text \<open>
  The constructors of the construct library are not among the sources. One of those the
  pipeline stack calls rejects a value the app can pass: \<^verbatim>\<open>new iam.AccountPrincipal(id)\<close>
  of \<^verbatim>\<open>aws-cdk-lib\<close> throws \<^verbatim>\<open>accountId should be of type string\<close> when \<open>id\<close> is
  \<^verbatim>\<open>undefined\<close>. The pipeline stack creates the principal of the UAT account first,
  then that of the Prod account.
\<close>

datatype cdk_error = AccountIdNotString

definition new_AccountPrincipal :: "string option \<Rightarrow> cdk_error + grantee" where
  "new_AccountPrincipal accountId =
     (case accountId of
        None \<Rightarrow> Inl AccountIdNotString
      | Some s \<Rightarrow> Inr (AccountPrincipal (Some s)))"

definition new_PipelineStack ::
  "string \<Rightarrow> string \<Rightarrow> PipelineStackProps \<Rightarrow> cdk_error + pipeline_stack" where
  "new_PipelineStack account id' props =
     (case new_AccountPrincipal (uatAccountId props) of
        Inl e \<Rightarrow> Inl e
      | Inr uatAccountRootPrincipal \<Rightarrow>
         (case new_AccountPrincipal (prodAccountId props) of
            Inl e \<Rightarrow> Inl e
          | Inr prodAccountRootPrincipal \<Rightarrow> Inr (PipelineStack account id' props)))"

definition new_app ::
  "(string \<Rightarrow> string option) \<Rightarrow> (string \<Rightarrow> string option) \<Rightarrow> string \<Rightarrow> cdk_error + cdk_app" where
  "new_app tryGetContext process_env account =
     (let uatAccountId = app_uatAccountId tryGetContext process_env;
          prodAccountId = app_prodAccountId tryGetContext process_env;
          uatApplicationStack = ApplicationStack ''UatApplicationStack'' \<lparr>stageName = ''uat''\<rparr>;
          prodApplicationStack = ApplicationStack ''ProdApplicationStack'' \<lparr>stageName = ''prod''\<rparr>
      in case new_PipelineStack account ''CrossAccountPipelineStack''
              \<lparr>uatApplicationStack = uatApplicationStack,
               uatAccountId = uatAccountId,
               prodApplicationStack = prodApplicationStack,
               prodAccountId = prodAccountId\<rparr> of
           Inl e \<Rightarrow> Inl e
         | Inr pipelineStack \<Rightarrow>
             Inr \<lparr>repositoryStack = ''RepositoryStack'',
                  app_uatApplicationStack = uatApplicationStack,
                  app_prodApplicationStack = prodApplicationStack,
                  crossAccountPipelineStack = pipelineStack\<rparr>)"

text \<open>
  What a pipeline deploys to: per deploy action, the stage, the stack name, the role the
  pipeline assumes and the role CloudFormation deploys with.
\<close>

fun deploy_target :: "string \<Rightarrow> action \<Rightarrow> (string \<times> string \<times> string \<times> string) list" where
  "deploy_target g (CloudFormationCreateUpdateStackAction a) =
     [(g, stackName a, roleArn (role a), roleArn (deploymentRole a))]"
| "deploy_target g (CodeCommitSourceAction a) = []"
| "deploy_target g (CodeBuildAction a) = []"

definition deploy_targets :: "pipeline_stack \<Rightarrow> (string \<times> string \<times> string \<times> string) list" where
  "deploy_targets st =
     concat (map (\<lambda>g. concat (map (deploy_target (stage_name g)) (actions g)))
       (stages (pipeline st)))"

text \<open>What the script's \<^verbatim>\<open>cdk deploy\<close> passes as context, and a process environment.\<close>

definition sample_context :: "string \<Rightarrow> string option" where
  "sample_context = [''prod-account'' \<mapsto> ''333'', ''uat-account'' \<mapsto> ''222'']"

definition tools_only :: "string \<Rightarrow> string option" where
  "tools_only = [''CDK_DEFAULT_ACCOUNT'' \<mapsto> ''111'']"

definition with_integ_account :: "string \<Rightarrow> string option" where
  "with_integ_account = [''CDK_INTEG_ACCOUNT'' \<mapsto> ''999'', ''CDK_DEFAULT_ACCOUNT'' \<mapsto> ''111'']"

definition empty_integ_account :: "string \<Rightarrow> string option" where
  "empty_integ_account = [''CDK_INTEG_ACCOUNT'' \<mapsto> [], ''CDK_DEFAULT_ACCOUNT'' \<mapsto> ''111'']"

definition prod_context_only :: "string \<Rightarrow> string option" where
  "prod_context_only = [''prod-account'' \<mapsto> ''333'']"

definition sample_props :: PipelineStackProps where
  "sample_props =
     \<lparr>uatApplicationStack = ApplicationStack ''UatApplicationStack'' \<lparr>stageName = ''uat''\<rparr>,
      uatAccountId = Some ''222'',
      prodApplicationStack = ApplicationStack ''ProdApplicationStack'' \<lparr>stageName = ''prod''\<rparr>,
      prodAccountId = Some ''333''\<rparr>"

section \<open>Properties of the text processing\<close>


subsection \<open>Splitting into words and lines\<close>

lemma split_blank_nonempty: "w \<noteq> [] \<Longrightarrow> split_blank w s \<noteq> []"
  by (induction s arbitrary: w) auto

lemma lines_acc_app: "newline \<notin> set l \<Longrightarrow> lines_acc w (l @ newline # t) = (w @ l) # lines_acc [] t"
  by (induction l arbitrary: w) auto

lemma lines_unlines: "\<forall>l\<in>set ls. newline \<notin> set l \<Longrightarrow> lines_acc [] (unlines ls) = ls"
  by (induction ls) (auto simp: unlines_def lines_acc_app)

lemma lines_acc_no_newline: "newline \<notin> set w \<Longrightarrow> \<forall>l\<in>set (lines_acc w s). newline \<notin> set l"
proof (induction s arbitrary: w)
  case Nil
  then show ?case by simp
next
  case (Cons c s)
  show ?case
  proof (cases "c = newline")
    case True
    then show ?thesis using Cons.prems Cons.IH[of "[]"] by simp
  next
    case False
    then show ?thesis using Cons.prems Cons.IH[of "w @ [c]"] by simp
  qed
qed

lemma sed_range_subset: "set (sed_range r ls) \<subseteq> set ls"
  by (induction r ls rule: sed_range.induct) auto

lemma awk_sed: "awk_KeyArn (sed_Outputs inp) = unlines (map (awk_field 3) (filter (contains ''KeyArn'') (sed_range False (lines_of inp))))"
proof -
  have "\<forall>l\<in>set (lines_of inp). newline \<notin> set l"
    using lines_acc_no_newline[of "[]" inp] by (simp add: lines_of_def)
  then have "\<forall>l\<in>set (sed_range False (lines_of inp)). newline \<notin> set l"
    using sed_range_subset[of False "lines_of inp"] by blast
  then have "lines_acc [] (unlines (sed_range False (lines_of inp))) = sed_range False (lines_of inp)"
    by (rule lines_unlines)
  then show ?thesis
    by (simp only: awk_KeyArn_def sed_Outputs_def lines_of_def)
qed

lemma split_blank_no_blank: "\<forall>c\<in>set w. \<not> is_blank c \<Longrightarrow> \<forall>f\<in>set (split_blank w s). \<forall>c\<in>set f. \<not> is_blank c"
proof (induction s arbitrary: w)
  case Nil
  then show ?case by simp
next
  case (Cons c s)
  show ?case
  proof (cases "is_blank c")
    case True
    have "\<forall>f\<in>set (split_blank [] s). \<forall>c\<in>set f. \<not> is_blank c"
      by (rule Cons.IH) simp
    with True Cons.prems show ?thesis by simp
  next
    case False
    have "\<forall>f\<in>set (split_blank (w @ [c]) s). \<forall>c\<in>set f. \<not> is_blank c"
      by (rule Cons.IH) (use False Cons.prems in simp)
    with False show ?thesis by simp
  qed
qed

lemma awk_field_no_newline: "newline \<notin> set (awk_field n l)"
proof (cases "0 < n \<and> n \<le> length (split_blank [] l)")
  case True
  then have "split_blank [] l ! (n - 1) \<in> set (split_blank [] l)"
    by (intro nth_mem) arith
  then have "\<forall>c\<in>set (split_blank [] l ! (n - 1)). \<not> is_blank c"
    using split_blank_no_blank[of "[]" l] by simp
  then have "newline \<notin> set (split_blank [] l ! (n - 1))"
    by (auto simp: is_blank_def)
  then show ?thesis using True
    by (simp add: awk_field_def Let_def)
next
  case False
  then show ?thesis by (auto simp add: awk_field_def Let_def)
qed

lemma command_substitution_line: "newline \<notin> set t \<Longrightarrow> command_substitution (t @ [newline]) = t"
  by (cases t rule: rev_cases) (auto simp: command_substitution_def)

lemma sed_range_skip: "\<forall>l\<in>set pre. \<not> contains ''Outputs:'' l \<Longrightarrow> sed_range False (pre @ rest) = sed_range False rest"
  by (induction pre) simp_all

lemma sed_range_open: "[] \<notin> set body \<Longrightarrow> sed_range True (body @ [] # post) = body @ [] # sed_range False post"
  by (induction body) auto

lemma sed_range_open_end: "[] \<notin> set body \<Longrightarrow> sed_range True body = body"
  by (induction body) auto

lemma KEY_ARN_extract: "KEY_ARN w = key_arn_extract (cdk_deploy_output w)"
  by (simp add: KEY_ARN_def key_arn_extract_def Let_def rm_rf_def tee_a_def redirect_def read_file_def CDK_OUTPUT_FILE_def)

section \<open>The extraction of the key ARN (C2)\<close>

lemmas eval_text = key_arn_extract_def command_substitution_def awk_KeyArn_def sed_Outputs_def
  lines_of_def unlines_def awk_field_def is_blank_def newline_def spec_key_arn_def

text \<open>
  C2, as stated, fails on a text with a second \<^verbatim>\<open>Outputs:\<close> line after the first blank
  line: sed opens a second range there. On \<open>two_sections\<close> the first region holds no
  \<^verbatim>\<open>KeyArn\<close> line, so the specification's reading returns the empty string, and the
  script returns \<^verbatim>\<open>x\<close>.
\<close>

theorem key_arn_extract_two_sections:
  "key_arn_extract two_sections = ''x'' \<and> spec_key_arn two_sections = []
   \<and> sed_range False (lines_of two_sections) \<noteq> spec_region (lines_of two_sections)"
  by (simp add: two_sections_def eval_text)

text \<open>
  C2, amended. The extraction selects the lines from the first line containing
  \<^verbatim>\<open>Outputs:\<close> through the next empty line (or through the end of the text when no empty
  line follows), and then goes on selecting in the same way in the text after that
  empty line; it selects nothing when no line contains \<^verbatim>\<open>Outputs:\<close>. It returns the
  third blank-separated field of every selected line containing \<^verbatim>\<open>KeyArn\<close>, one per
  line, without the trailing newlines: with exactly one such line, that line's third
  field. For the text of the specification it returns \<^verbatim>\<open>abcd1234\<close>, and for a text
  with no line containing \<^verbatim>\<open>KeyArn\<close> the empty string.
\<close>

theorem key_arn_extract_ranges:
  "((\<forall>l\<in>set pre. \<not> contains ''Outputs:'' l) \<and> contains ''Outputs:'' h \<and> [] \<notin> set body \<longrightarrow>
       sed_range False (pre @ h # body @ [] # post) = h # body @ [] # sed_range False post
       \<and> sed_range False (pre @ h # body) = h # body)
   \<and> ((\<forall>l\<in>set ls. \<not> contains ''Outputs:'' l) \<longrightarrow> sed_range False ls = [])
   \<and> key_arn_extract inp =
       command_substitution (unlines (map (awk_field 3)
         (filter (contains ''KeyArn'') (sed_range False (lines_of inp)))))
   \<and> (filter (contains ''KeyArn'') (sed_range False (lines_of inp)) = [k] \<longrightarrow>
       key_arn_extract inp = awk_field 3 k)
   \<and> key_arn_extract spec_sample = ''abcd1234''
   \<and> ((\<forall>l\<in>set (lines_of inp). \<not> contains ''KeyArn'' l) \<longrightarrow> key_arn_extract inp = [])"
proof -
  have ranges: "sed_range False (pre @ h # body @ [] # post) = h # body @ [] # sed_range False post
      \<and> sed_range False (pre @ h # body) = h # body"
    if "\<forall>l\<in>set pre. \<not> contains ''Outputs:'' l" "contains ''Outputs:'' h" "[] \<notin> set body"
    using that by (simp add: sed_range_skip sed_range_open sed_range_open_end)
  have none: "sed_range False ls = []" if "\<forall>l\<in>set ls. \<not> contains ''Outputs:'' l"
    using sed_range_skip[OF that, of "[]"] by simp
  have form: "key_arn_extract inp =
       command_substitution (unlines (map (awk_field 3)
         (filter (contains ''KeyArn'') (sed_range False (lines_of inp)))))"
    by (simp only: key_arn_extract_def awk_sed)
  have one: "key_arn_extract inp = awk_field 3 k"
    if "filter (contains ''KeyArn'') (sed_range False (lines_of inp)) = [k]"
    using that awk_field_no_newline[of 3 k]
    by (simp add: form unlines_def command_substitution_line)
  have sample: "key_arn_extract spec_sample = ''abcd1234''"
    by (simp add: spec_sample_def eval_text)
  have nokey: "key_arn_extract inp = []" if "\<forall>l\<in>set (lines_of inp). \<not> contains ''KeyArn'' l"
  proof -
    have "\<forall>l\<in>set (sed_range False (lines_of inp)). \<not> contains ''KeyArn'' l"
      using that sed_range_subset[of False "lines_of inp"] by blast
    then have "filter (contains ''KeyArn'') (sed_range False (lines_of inp)) = []"
      by (simp add: filter_empty_conv)
    then show ?thesis
      by (simp add: form unlines_def command_substitution_def)
  qed
  from ranges none form one sample nokey show ?thesis by blast
qed

text \<open>
  Witness for C2: a text with two sections, a text without \<^verbatim>\<open>Outputs:\<close>, the output
  of a successful \<^verbatim>\<open>cdk deploy\<close>, and an output without the key.
\<close>

theorem key_arn_extract_ranges_witness:
  "sed_range False ([''Deploying''] @ ''Outputs:'' # [''Stack.KeyArn = x''] @ [] # [''Outputs:'', ''y''])
     = ''Outputs:'' # [''Stack.KeyArn = x''] @ [] # sed_range False [''Outputs:'', ''y'']
   \<and> sed_range False [''Deploying'', ''done''] = []
   \<and> key_arn_extract sample_output = ''arn:aws:kms:us-west-2:111:key/abc''
   \<and> key_arn_extract output_without_key = []"
proof -
  note t = key_arn_extract_ranges[of "[''Deploying'']" "''Outputs:''" "[''Stack.KeyArn = x'']"
      "[''Outputs:'', ''y'']" "[''Deploying'', ''done'']" sample_output
      "''CrossAccountPipelineStack.ArtifactBucketEncryptionKeyArn = arn:aws:kms:us-west-2:111:key/abc''"]
  note u = key_arn_extract_ranges[of "[]" "[]" "[]" "[]" "[]" output_without_key "[]"]
  have h1: "(\<forall>l\<in>set [''Deploying'']. \<not> contains ''Outputs:'' l) \<and> contains ''Outputs:'' ''Outputs:''
      \<and> [] \<notin> set [''Stack.KeyArn = x'']"
    by simp
  have h2: "\<forall>l\<in>set [''Deploying'', ''done'']. \<not> contains ''Outputs:'' l"
    by simp
  have k: "filter (contains ''KeyArn'') (sed_range False (lines_of sample_output))
     = [''CrossAccountPipelineStack.ArtifactBucketEncryptionKeyArn = arn:aws:kms:us-west-2:111:key/abc'']"
    by (simp add: sample_output_def lines_of_def newline_def)
  have n: "\<forall>l\<in>set (lines_of output_without_key). \<not> contains ''KeyArn'' l"
    by (simp add: output_without_key_def lines_of_def newline_def)
  have a: "awk_field 3 ''CrossAccountPipelineStack.ArtifactBucketEncryptionKeyArn = arn:aws:kms:us-west-2:111:key/abc'' = ''arn:aws:kms:us-west-2:111:key/abc''"
    by (simp add: awk_field_def is_blank_def newline_def)
  from t h1 have c1: "sed_range False ([''Deploying''] @ ''Outputs:'' # [''Stack.KeyArn = x''] @ [] # [''Outputs:'', ''y''])
     = ''Outputs:'' # [''Stack.KeyArn = x''] @ [] # sed_range False [''Outputs:'', ''y'']"
    by blast
  from t h2 have c2: "sed_range False [''Deploying'', ''done''] = []"
    by blast
  from t k have "key_arn_extract sample_output = awk_field 3 ''CrossAccountPipelineStack.ArtifactBucketEncryptionKeyArn = arn:aws:kms:us-west-2:111:key/abc''"
    by blast
  from this a have c3: "key_arn_extract sample_output = ''arn:aws:kms:us-west-2:111:key/abc''"
    by (rule trans)
  from u n have c4: "key_arn_extract output_without_key = []"
    by blast
  from c1 c2 c3 c4 show ?thesis by blast
qed

section \<open>The jobs the script dispatches\<close>

lemma KEY_ARN_prod_role_fails: "KEY_ARN prod_role_fails = ''arn:aws:kms:us-west-2:111:key/abc''"
  by (simp add: KEY_ARN_extract prod_role_fails_def sample_output_def eval_text)

lemma jobs_prod_role_fails:
  "automate_deployment sample_accounts prod_role_fails =
     deploy_roles sample_accounts @ deploy_repository_stack @ deploy_pipeline_stack sample_accounts
     @ update_roles sample_accounts ''arn:aws:kms:us-west-2:111:key/abc''
     @ commit_code sample_accounts (exit_status prod_role_fails) @ show_endpoints @ clean_up"
  by (simp add: automate_deployment_def KEY_ARN_prod_role_fails accounts_missing_def expand_def sample_accounts_def)

lemma split_words_nonempty [simp]: "\<not> is_blank c \<Longrightarrow> split_words (c # s) \<noteq> []"
  by (simp add: split_words_def split_blank_nonempty)

lemma KeyArn_words_nonempty [simp]: "split_words (CHR ''K'' # s) \<noteq> []"
  by (simp add: is_blank_def newline_def)

lemma KeyArn_words_nonempty' [simp]: "[] \<noteq> split_words (CHR ''K'' # s)"
  using KeyArn_words_nonempty[of s] by (rule not_sym)

lemma split_blank_one:
  "\<forall>c\<in>set s. \<not> is_blank c \<Longrightarrow> split_blank w s = (if w @ s = [] then [] else [w @ s])"
  by (induction s arbitrary: w) auto

lemma split_words_one:
  "\<forall>c\<in>set s. \<not> is_blank c \<Longrightarrow> s \<noteq> [] \<Longrightarrow> split_words s = [s]"
  by (simp add: split_words_def split_blank_one)

lemma roles_sample:
  "deploy_roles sample_accounts =
    [Foreground [''printf'', backslash_n @ ''Deploying roles to UAT and Prod'' @ backslash_n],
     Background (cfn_deploy ''templates/CodePipelineCrossAccountRole.yml''
        ''CodePipelineCrossAccountRole'' ''uat'' [''ToolsAccountID=111'', ''Stage=Uat'']),
     Background (cfn_deploy ''templates/CloudFormationDeploymentRole.yml''
        ''CloudFormationDeploymentRole'' ''uat'' [''ToolsAccountID=111'', ''Stage=Uat'']),
     Background (cfn_deploy ''templates/CodePipelineCrossAccountRole.yml''
        ''CodePipelineCrossAccountRole'' ''prod'' [''ToolsAccountID=111'', ''Stage=Prod'']),
     Foreground (cfn_deploy ''templates/CloudFormationDeploymentRole.yml''
        ''CloudFormationDeploymentRole'' ''prod'' [''ToolsAccountID=111'', ''Stage=Prod''])]"
  by (simp add: deploy_roles_def sample_accounts_def expand_def split_words_def is_blank_def newline_def)

lemma status_prod_role_fails:
  "exit_status prod_role_fails c =
     (if c = cfn_deploy ''templates/CloudFormationDeploymentRole.yml''
        ''CloudFormationDeploymentRole'' ''prod'' [''ToolsAccountID=111'', ''Stage=Prod''] then 1 else 0)"
  by (simp add: prod_role_fails_def roles_sample)

lemma commit_prod_role_fails:
  "commit_code sample_accounts (exit_status prod_role_fails) =
     [Foreground [''printf'', backslash_n @ ''Committing code to repository'' @ backslash_n],
      Foreground [''git'', ''init''], Foreground [''git'', ''branch'', ''-m'', ''main''],
      Foreground [''git'', ''add'', ''.''],
      Foreground [''git'', ''commit'', ''-m'', ''Initial commit''],
      Foreground [''git'', ''remote'', ''rm'', ''origin''],
      Foreground [''git'', ''remote'', ''add'', ''origin'',
        ''https://git-codecommit.us-west-2.amazonaws.com/v1/repos/repo-111''],
      Foreground [''git'', ''config'', ''main.remove'', ''origin''],
      Foreground [''git'', ''config'', ''main.merge'', ''refs/heads/main''],
      Foreground [''git'', ''push'', ''--set-upstream'', ''origin'', ''main'']]"
  by (simp add: commit_code_def status_prod_role_fails cfn_deploy_def
      sample_accounts_def expand_def split_words_def is_blank_def newline_def)

lemma jobs_explicit:
  "automate_deployment sample_accounts prod_role_fails =
     deploy_roles sample_accounts @ deploy_repository_stack @ deploy_pipeline_stack sample_accounts
     @ update_roles sample_accounts ''arn:aws:kms:us-west-2:111:key/abc''
     @ [Foreground [''printf'', backslash_n @ ''Committing code to repository'' @ backslash_n],
        Foreground [''git'', ''init''], Foreground [''git'', ''branch'', ''-m'', ''main''],
        Foreground [''git'', ''add'', ''.''],
        Foreground [''git'', ''commit'', ''-m'', ''Initial commit''],
        Foreground [''git'', ''remote'', ''rm'', ''origin''],
        Foreground [''git'', ''remote'', ''add'', ''origin'',
          ''https://git-codecommit.us-west-2.amazonaws.com/v1/repos/repo-111''],
        Foreground [''git'', ''config'', ''main.remove'', ''origin''],
        Foreground [''git'', ''config'', ''main.merge'', ''refs/heads/main''],
        Foreground [''git'', ''push'', ''--set-upstream'', ''origin'', ''main'']]
     @ show_endpoints @ clean_up"
  by (simp only: jobs_prod_role_fails commit_prod_role_fails)

subsection \<open>The account check (C4)\<close>

text \<open>
  C4. If one of \<^verbatim>\<open>TOOLS_ACCOUNT_ID\<close>, \<^verbatim>\<open>UAT_ACCOUNT_ID\<close>, \<^verbatim>\<open>PROD_ACCOUNT_ID\<close> is unset (or
  empty) when the script starts, the script exits after the test: all it runs are the
  four \<^verbatim>\<open>printf\<close> lines of the branch, which write the diagnostic to the standard
  output; it runs no \<^verbatim>\<open>cloudformation deploy\<close>, no \<^verbatim>\<open>cdk deploy\<close>, no \<^verbatim>\<open>git push\<close> and
  no other command.
\<close>

theorem missing_account_exits_first:
  assumes "v \<in> {''TOOLS_ACCOUNT_ID'', ''UAT_ACCOUNT_ID'', ''PROD_ACCOUNT_ID''}"
    and "env v = None \<or> env v = Some []"
  shows "automate_deployment env w = please_set_accounts env
    \<and> length (automate_deployment env w) = 4
    \<and> list_all (\<lambda>j. is_printf (cmd j)) (automate_deployment env w)
    \<and> \<not> list_ex (\<lambda>j. is_cfn_deploy (cmd j) \<or> is_cdk_deploy (cmd j) \<or> is_git_push (cmd j))
          (automate_deployment env w)"
proof -
  from assms have "accounts_missing env"
    by (auto simp: accounts_missing_def expand_def)
  then have "automate_deployment env w = please_set_accounts env"
    by (simp add: automate_deployment_def)
  then show ?thesis
    by (simp add: please_set_accounts_def is_printf_def is_cfn_deploy_def is_cdk_deploy_def
        is_git_push_def)
qed

text \<open>
  Witness for C4: \<^verbatim>\<open>UAT_ACCOUNT_ID\<close> unset.
\<close>

theorem missing_account_exits_first_witness:
  "automate_deployment no_uat_account all_succeed =
     [Foreground [''printf'', ''Please set TOOLS_ACCOUNT_ID, UAT_ACCOUNT_ID, and PROD_ACCOUNT_ID''],
      Foreground [''printf'', ''TOOLS_ACCOUNT_ID ='', ''111''],
      Foreground [''printf'', ''UAT_ACCOUNT_ID =''],
      Foreground [''printf'', ''PROD_ACCOUNT_ID ='', ''333'']]
   \<and> \<not> list_ex (\<lambda>j. is_cfn_deploy (cmd j) \<or> is_cdk_deploy (cmd j) \<or> is_git_push (cmd j))
          (automate_deployment no_uat_account all_succeed)"
proof -
  have v: "''UAT_ACCOUNT_ID'' \<in> {''TOOLS_ACCOUNT_ID'', ''UAT_ACCOUNT_ID'', ''PROD_ACCOUNT_ID''}"
    by simp
  have u: "no_uat_account ''UAT_ACCOUNT_ID'' = None \<or> no_uat_account ''UAT_ACCOUNT_ID'' = Some []"
    by (simp add: no_uat_account_def)
  have p: "please_set_accounts no_uat_account =
     [Foreground [''printf'', ''Please set TOOLS_ACCOUNT_ID, UAT_ACCOUNT_ID, and PROD_ACCOUNT_ID''],
      Foreground [''printf'', ''TOOLS_ACCOUNT_ID ='', ''111''],
      Foreground [''printf'', ''UAT_ACCOUNT_ID =''],
      Foreground [''printf'', ''PROD_ACCOUNT_ID ='', ''333'']]"
    by (simp add: please_set_accounts_def no_uat_account_def expand_def split_words_def
        is_blank_def newline_def)
  note t = missing_account_exits_first[of "''UAT_ACCOUNT_ID''" no_uat_account all_succeed, OF v u]
  from t have "automate_deployment no_uat_account all_succeed = please_set_accounts no_uat_account"
    by blast
  from this p have "automate_deployment no_uat_account all_succeed =
     [Foreground [''printf'', ''Please set TOOLS_ACCOUNT_ID, UAT_ACCOUNT_ID, and PROD_ACCOUNT_ID''],
      Foreground [''printf'', ''TOOLS_ACCOUNT_ID ='', ''111''],
      Foreground [''printf'', ''UAT_ACCOUNT_ID =''],
      Foreground [''printf'', ''PROD_ACCOUNT_ID ='', ''333'']]"
    by (rule trans)
  with t show ?thesis
    by blast
qed

subsection \<open>The check of the extracted key (C3)\<close>

lemma filter_and_list:
  "\<forall>c\<in>set cs. \<not> P (Foreground c) \<Longrightarrow> filter P (and_list st cs) = []"
  by (induction cs) auto

lemma roles_cfn: "filter (\<lambda>j. is_cfn_deploy (cmd j)) (deploy_roles env) = tl (deploy_roles env)"
  by (simp add: deploy_roles_def cfn_deploy_def is_cfn_deploy_def)

lemma repository_cfn: "filter (\<lambda>j. is_cfn_deploy (cmd j)) deploy_repository_stack = []"
  by (simp add: deploy_repository_stack_def is_cfn_deploy_def)

lemma pipeline_cfn: "filter (\<lambda>j. is_cfn_deploy (cmd j)) (deploy_pipeline_stack env) = []"
  by (simp add: deploy_pipeline_stack_def is_cfn_deploy_def)

text \<open>
  C3. If the key ARN extracted from the output of the pipeline-stack deployment is
  empty, the script prints its diagnostic and exits: the diagnostic \<^verbatim>\<open>printf\<close> is the
  last job, the only \<^verbatim>\<open>cloudformation deploy\<close> jobs are the four of the first role
  step, none of the role re-deployments with the key is dispatched (whatever key \<open>k\<close>
  they would carry), no git command runs (so nothing is pushed), and neither the
  endpoint messages nor the final clean-up run.
\<close>

theorem empty_key_arn_aborts:
  assumes acc: "\<not> accounts_missing env"
    and emp: "key_arn_extract (cdk_deploy_output w) = []"
  shows "automate_deployment env w =
       deploy_roles env @ deploy_repository_stack @ deploy_pipeline_stack env @ key_arn_missing
    \<and> last (automate_deployment env w) = Foreground [''printf'', backslash_n @
         ''Something went wrong - we didn't get a Key ARN as an output from the CDK Pipeline deployment'']
    \<and> filter (\<lambda>j. is_cfn_deploy (cmd j)) (automate_deployment env w) = tl (deploy_roles env)
    \<and> list_all (\<lambda>j. j \<notin> set (automate_deployment env w)) (tl (update_roles env k))
    \<and> \<not> list_ex (\<lambda>j. take 1 (cmd j) = [''git'']) (automate_deployment env w)
    \<and> list_all (\<lambda>j. j \<notin> set (automate_deployment env w)) (show_endpoints @ clean_up)"
proof -
  from acc emp have js: "automate_deployment env w =
       deploy_roles env @ deploy_repository_stack @ deploy_pipeline_stack env @ key_arn_missing"
    by (simp add: automate_deployment_def KEY_ARN_extract)
  have l: "last (automate_deployment env w) = Foreground [''printf'', backslash_n @
         ''Something went wrong - we didn't get a Key ARN as an output from the CDK Pipeline deployment'']"
    by (simp add: js key_arn_missing_def)
  have c: "filter (\<lambda>j. is_cfn_deploy (cmd j)) (automate_deployment env w) = tl (deploy_roles env)"
    by (simp add: js roles_cfn repository_cfn pipeline_cfn) (simp add: key_arn_missing_def is_cfn_deploy_def)
  have u: "list_all (\<lambda>j. j \<notin> set (automate_deployment env w)) (tl (update_roles env k))"
  proof -
    have "j \<notin> set (tl (deploy_roles env))" if "j \<in> set (tl (update_roles env k))" for j
      using that by (auto simp: update_roles_def deploy_roles_def cfn_deploy_def)
    moreover have "is_cfn_deploy (cmd j)" if "j \<in> set (tl (update_roles env k))" for j
      using that by (auto simp: update_roles_def cfn_deploy_def is_cfn_deploy_def)
    moreover have "set (tl (deploy_roles env))
        = {j \<in> set (automate_deployment env w). is_cfn_deploy (cmd j)}"
      using c by (metis set_filter)
    ultimately have "j \<notin> set (automate_deployment env w)" if "j \<in> set (tl (update_roles env k))" for j
      using that by blast
    then show ?thesis by (simp add: list_all_iff)
  qed
  have g: "\<not> list_ex (\<lambda>j. take 1 (cmd j) = [''git'']) (automate_deployment env w)"
    by (simp add: js deploy_roles_def deploy_repository_stack_def deploy_pipeline_stack_def
        key_arn_missing_def cfn_deploy_def)
  have e: "list_all (\<lambda>j. j \<notin> set (automate_deployment env w)) (show_endpoints @ clean_up)"
    by (simp add: js deploy_roles_def deploy_repository_stack_def deploy_pipeline_stack_def
        key_arn_missing_def cfn_deploy_def show_endpoints_def clean_up_def CDK_OUTPUT_FILE_def
        backslash_n_def)
  from js l c u g e show ?thesis by blast
qed

text \<open>
  Witness for C3: the three accounts set, and an output of \<^verbatim>\<open>cdk deploy\<close> without the
  key.
\<close>

theorem empty_key_arn_aborts_witness:
  "automate_deployment sample_accounts key_not_published =
       deploy_roles sample_accounts @ deploy_repository_stack @ deploy_pipeline_stack sample_accounts
       @ key_arn_missing
   \<and> filter (\<lambda>j. is_cfn_deploy (cmd j)) (automate_deployment sample_accounts key_not_published)
       = tl (deploy_roles sample_accounts)
   \<and> list_all (\<lambda>j. j \<notin> set (automate_deployment sample_accounts key_not_published))
        (tl (update_roles sample_accounts ''arn:aws:kms:us-west-2:111:key/abc''))
   \<and> \<not> list_ex (\<lambda>j. take 1 (cmd j) = [''git''])
        (automate_deployment sample_accounts key_not_published)"
proof -
  have a: "\<not> accounts_missing sample_accounts"
    by (simp add: accounts_missing_def expand_def sample_accounts_def)
  have e: "key_arn_extract (cdk_deploy_output key_not_published) = []"
    by (simp add: key_not_published_def output_without_key_def eval_text)
  from empty_key_arn_aborts[OF a e, of "''arn:aws:kms:us-west-2:111:key/abc''"] show ?thesis
    by blast
qed

subsection \<open>Failed deployments (C5)\<close>

lemma and_list_cong:
  "\<forall>c\<in>set cs. st c = st' c \<Longrightarrow> and_list st cs = and_list st' cs"
  by (induction cs) auto

lemma commit_code_status:
  assumes "is_deployment c"
  shows "commit_code env (st(c := n)) = commit_code env st"
proof -
  have "c \<notin> set [[''git'', ''init''], [''git'', ''branch'', ''-m'', ''main''], [''git'', ''add'', ''.''],
         [''git'', ''commit'', ''-m'', ''Initial commit''], [''git'', ''remote'', ''rm'', ''origin'']]"
    and "c \<notin> set [[''git'', ''config'', ''main.remove'', ''origin''],
         [''git'', ''config'', ''main.merge'', ''refs/heads/main''],
         [''git'', ''push'', ''--set-upstream'', ''origin'', ''main'']]"
    using assms by (auto simp: is_deployment_def is_cfn_deploy_def is_cdk_deploy_def)
  then show ?thesis
    unfolding commit_code_def
    by (intro arg_cong2[where f = "(@)"] and_list_cong refl ballI) auto
qed

lemma deployments_of_roles:
  "filter is_deployment (map cmd (deploy_roles env)) = map cmd (tl (deploy_roles env))"
  by (simp add: deploy_roles_def cfn_deploy_def is_deployment_def is_cfn_deploy_def is_cdk_deploy_def)

lemma deployments_of_update:
  "filter is_deployment (map cmd (update_roles env k)) = map cmd (tl (update_roles env k))"
  by (simp add: update_roles_def cfn_deploy_def is_deployment_def is_cfn_deploy_def is_cdk_deploy_def)

lemma deployments_of_repository:
  "filter is_deployment (map cmd deploy_repository_stack)
     = [[''cdk'', ''deploy'', ''RepositoryStack'', em_dash @ ''profile'', ''pipeline'']]"
  by (simp add: deploy_repository_stack_def is_deployment_def is_cfn_deploy_def is_cdk_deploy_def)

lemma deployments_of_pipeline:
  "filter is_deployment (map cmd (deploy_pipeline_stack env)) = [cmd (deploy_pipeline_stack env ! 2)]"
  by (simp add: deploy_pipeline_stack_def is_deployment_def is_cfn_deploy_def is_cdk_deploy_def)

lemma deployments_of_and_list:
  "\<forall>c\<in>set cs. \<not> is_deployment c \<Longrightarrow> filter is_deployment (map cmd (and_list st cs)) = []"
  by (induction cs) auto

lemma deployments_of_commit: "filter is_deployment (map cmd (commit_code env st)) = []"
  by (simp add: commit_code_def deployments_of_and_list is_deployment_def is_cfn_deploy_def
      is_cdk_deploy_def)

lemma deployments_of_rest:
  "filter is_deployment (map cmd (key_arn_missing @ show_endpoints @ clean_up @ please_set_accounts env)) = []"
  by (simp add: key_arn_missing_def show_endpoints_def clean_up_def please_set_accounts_def
      is_deployment_def is_cfn_deploy_def is_cdk_deploy_def)

lemma KEY_ARN_status: "KEY_ARN (w\<lparr>exit_status := st\<rparr>) = KEY_ARN w"
  by (simp add: KEY_ARN_def)

lemma distinct_deployments:
  "distinct (map cmd (tl (deploy_roles env))
     @ [[''cdk'', ''deploy'', ''RepositoryStack'', em_dash @ ''profile'', ''pipeline''],
        cmd (deploy_pipeline_stack env ! 2)]
     @ map cmd (tl (update_roles env k)))"
  by (simp add: deploy_roles_def update_roles_def deploy_pipeline_stack_def cfn_deploy_def)

text \<open>
  C5, as stated, fails: in the world \<open>prod_role_fails\<close> the foreground role deployment
  of the first step (job 4) ends with status 1, and the script still dispatches
  \<^verbatim>\<open>cdk deploy RepositoryStack\<close> (job 10), the pipeline-stack deployment (job 13), the
  role re-deployments (from job 17) and \<^verbatim>\<open>git push\<close> (job 30).
\<close>

theorem failed_role_deployment_not_fatal:
  "is_deployment (cmd (automate_deployment sample_accounts prod_role_fails ! 4))
   \<and> exit_status prod_role_fails (cmd (automate_deployment sample_accounts prod_role_fails ! 4)) = 1
   \<and> is_deployment (cmd (automate_deployment sample_accounts prod_role_fails ! 10))
   \<and> is_deployment (cmd (automate_deployment sample_accounts prod_role_fails ! 13))
   \<and> is_deployment (cmd (automate_deployment sample_accounts prod_role_fails ! 17))
   \<and> is_git_push (cmd (automate_deployment sample_accounts prod_role_fails ! 30))
   \<and> \<not> aborts_on_failure (exit_status prod_role_fails)
         (automate_deployment sample_accounts prod_role_fails)"
  by (simp add: jobs_explicit roles_sample deploy_repository_stack_def deploy_pipeline_stack_def
      update_roles_def show_endpoints_def clean_up_def cfn_deploy_def status_prod_role_fails
      is_deployment_def is_cfn_deploy_def is_cdk_deploy_def is_git_push_def)

text \<open>
  C5, amended. The script never looks at the exit status of a deployment: with the
  status of any deployment command changed to any value, the jobs dispatched are the
  same. No deployment is retried: no deployment command is dispatched twice. When the
  three accounts are set and the extracted key is not empty, the script dispatches all
  its steps, whatever the deployments return.
\<close>

theorem deployment_status_not_inspected:
  assumes "is_deployment c"
  shows "automate_deployment env (w\<lparr>exit_status := (exit_status w)(c := n)\<rparr>)
       = automate_deployment env w
    \<and> distinct (filter is_deployment (map cmd (automate_deployment env w)))
    \<and> (\<not> accounts_missing env \<and> KEY_ARN w \<noteq> [] \<longrightarrow>
         automate_deployment env w =
           deploy_roles env @ deploy_repository_stack @ deploy_pipeline_stack env
           @ update_roles env (KEY_ARN w) @ commit_code env (exit_status w)
           @ show_endpoints @ clean_up)"
proof -
  have full: "automate_deployment env w =
           deploy_roles env @ deploy_repository_stack @ deploy_pipeline_stack env
           @ update_roles env (KEY_ARN w) @ commit_code env (exit_status w)
           @ show_endpoints @ clean_up"
    if "\<not> accounts_missing env" "KEY_ARN w \<noteq> []"
    using that by (simp add: automate_deployment_def)
  have same: "automate_deployment env (w\<lparr>exit_status := (exit_status w)(c := n)\<rparr>)
       = automate_deployment env w"
    by (simp add: automate_deployment_def KEY_ARN_status commit_code_status[OF assms])
  have "distinct (filter is_deployment (map cmd (automate_deployment env w)))"
  proof (cases "accounts_missing env")
    case True
    then show ?thesis
      using deployments_of_rest[of env] by (simp add: automate_deployment_def)
  next
    case False
    note d = distinct_deployments[of env "KEY_ARN w"]
    show ?thesis
    proof (cases "KEY_ARN w = []")
      case True
      with False d deployments_of_rest[of env] show ?thesis
        by (simp add: automate_deployment_def deployments_of_roles deployments_of_repository
            deployments_of_pipeline)
    next
      case k: False
      with False d deployments_of_rest[of env] show ?thesis
        by (simp add: automate_deployment_def deployments_of_roles deployments_of_repository
            deployments_of_pipeline deployments_of_update deployments_of_commit)
    qed
  qed
  with same full show ?thesis by blast
qed

text \<open>
  Witness for C5: the status of the foreground role deployment changed from 0 to 1, with
  the sample accounts and the sample output.
\<close>

theorem deployment_status_not_inspected_witness:
  "automate_deployment sample_accounts
     (all_succeed\<lparr>exit_status := (exit_status all_succeed)(cmd (deploy_roles sample_accounts ! 4) := 1)\<rparr>)
     = automate_deployment sample_accounts all_succeed
   \<and> distinct (filter is_deployment (map cmd (automate_deployment sample_accounts all_succeed)))
   \<and> automate_deployment sample_accounts all_succeed =
       deploy_roles sample_accounts @ deploy_repository_stack
       @ deploy_pipeline_stack sample_accounts
       @ update_roles sample_accounts ''arn:aws:kms:us-west-2:111:key/abc''
       @ commit_code sample_accounts (exit_status all_succeed) @ show_endpoints @ clean_up"
proof -
  have d: "is_deployment (cmd (deploy_roles sample_accounts ! 4))"
    by (simp add: deploy_roles_def cfn_deploy_def is_deployment_def is_cfn_deploy_def)
  have a: "\<not> accounts_missing sample_accounts"
    by (simp add: accounts_missing_def expand_def sample_accounts_def)
  have k: "KEY_ARN all_succeed = ''arn:aws:kms:us-west-2:111:key/abc''"
    by (simp add: KEY_ARN_extract all_succeed_def sample_output_def eval_text)
  then have n: "KEY_ARN all_succeed \<noteq> []"
    by simp
  note t = deployment_status_not_inspected[OF d, of sample_accounts all_succeed 1]
  from t a n have "automate_deployment sample_accounts all_succeed =
       deploy_roles sample_accounts @ deploy_repository_stack
       @ deploy_pipeline_stack sample_accounts
       @ update_roles sample_accounts (KEY_ARN all_succeed)
       @ commit_code sample_accounts (exit_status all_succeed) @ show_endpoints @ clean_up"
    by blast
  then have "automate_deployment sample_accounts all_succeed =
       deploy_roles sample_accounts @ deploy_repository_stack
       @ deploy_pipeline_stack sample_accounts
       @ update_roles sample_accounts ''arn:aws:kms:us-west-2:111:key/abc''
       @ commit_code sample_accounts (exit_status all_succeed) @ show_endpoints @ clean_up"
    unfolding k .
  with t show ?thesis by blast
qed

subsection \<open>The two role steps (C6)\<close>

text \<open>
  C6. The four deployments of the second role step are the four of the first step
  with the words of \<^verbatim>\<open>KeyArn=${KEY_ARN}\<close> appended (the two Prod deployments are
  dispatched in the other order): the template, the stack name, the capabilities and the
  profile are the same, the parameter overrides are those of the first step followed by
  the key parameter, which is the single word \<^verbatim>\<open>KeyArn=<key>\<close> when the key holds no
  blank. Hence the role a deployment creates, a function of profile and template, has
  the same identifier in both steps.
\<close>

theorem update_roles_same_stacks:
  "map cmd (tl (update_roles env k)) =
     map (\<lambda>c. c @ split_words (''KeyArn='' @ k))
       [cmd (deploy_roles env ! 1), cmd (deploy_roles env ! 2),
        cmd (deploy_roles env ! 4), cmd (deploy_roles env ! 3)]
   \<and> (\<forall>c\<in>set (map cmd (tl (deploy_roles env))).
        is_cfn_deploy c \<and> is_cfn_deploy (c @ split_words (''KeyArn='' @ k))
        \<and> option_value ''--template-file'' (c @ split_words (''KeyArn='' @ k))
            = option_value ''--template-file'' c
        \<and> option_value ''--stack-name'' (c @ split_words (''KeyArn='' @ k))
            = option_value ''--stack-name'' c
        \<and> option_value ''--capabilities'' (c @ split_words (''KeyArn='' @ k))
            = option_value ''--capabilities'' c
        \<and> option_value ''--profile'' (c @ split_words (''KeyArn='' @ k))
            = option_value ''--profile'' c
        \<and> words_after ''--parameter-overrides'' (c @ split_words (''KeyArn='' @ k))
            = words_after ''--parameter-overrides'' c @ split_words (''KeyArn='' @ k)
        \<and> role_identifier account_of role_kind (c @ split_words (''KeyArn='' @ k))
            = role_identifier account_of role_kind c)
   \<and> map (\<lambda>c. (option_value ''--stack-name'' c, option_value ''--template-file'' c,
                option_value ''--profile'' c)) (map cmd (tl (update_roles env k)))
       = [(Some ''CodePipelineCrossAccountRole'',
           Some ''templates/CodePipelineCrossAccountRole.yml'', Some ''uat''),
          (Some ''CloudFormationDeploymentRole'',
           Some ''templates/CloudFormationDeploymentRole.yml'', Some ''uat''),
          (Some ''CloudFormationDeploymentRole'',
           Some ''templates/CloudFormationDeploymentRole.yml'', Some ''prod''),
          (Some ''CodePipelineCrossAccountRole'',
           Some ''templates/CodePipelineCrossAccountRole.yml'', Some ''prod'')]
   \<and> map (words_after ''--parameter-overrides'') (map cmd (tl (deploy_roles env)))
       = [split_words (''ToolsAccountID='' @ expand env ''TOOLS_ACCOUNT_ID'') @ [''Stage=Uat''],
          split_words (''ToolsAccountID='' @ expand env ''TOOLS_ACCOUNT_ID'') @ [''Stage=Uat''],
          split_words (''ToolsAccountID='' @ expand env ''TOOLS_ACCOUNT_ID'') @ [''Stage=Prod''],
          split_words (''ToolsAccountID='' @ expand env ''TOOLS_ACCOUNT_ID'') @ [''Stage=Prod'']]
   \<and> ((\<forall>ch\<in>set k. \<not> is_blank ch) \<longrightarrow>
        split_words (''KeyArn='' @ k) = [''KeyArn='' @ k])"
proof -
  have a: "map cmd (tl (update_roles env k)) =
     map (\<lambda>c. c @ split_words (''KeyArn='' @ k))
       [cmd (deploy_roles env ! 1), cmd (deploy_roles env ! 2),
        cmd (deploy_roles env ! 4), cmd (deploy_roles env ! 3)]"
    by (simp add: update_roles_def deploy_roles_def cfn_deploy_def)
  have b: "\<forall>c\<in>set (map cmd (tl (deploy_roles env))).
        is_cfn_deploy c \<and> is_cfn_deploy (c @ split_words (''KeyArn='' @ k))
        \<and> option_value ''--template-file'' (c @ split_words (''KeyArn='' @ k))
            = option_value ''--template-file'' c
        \<and> option_value ''--stack-name'' (c @ split_words (''KeyArn='' @ k))
            = option_value ''--stack-name'' c
        \<and> option_value ''--capabilities'' (c @ split_words (''KeyArn='' @ k))
            = option_value ''--capabilities'' c
        \<and> option_value ''--profile'' (c @ split_words (''KeyArn='' @ k))
            = option_value ''--profile'' c
        \<and> words_after ''--parameter-overrides'' (c @ split_words (''KeyArn='' @ k))
            = words_after ''--parameter-overrides'' c @ split_words (''KeyArn='' @ k)
        \<and> role_identifier account_of role_kind (c @ split_words (''KeyArn='' @ k))
            = role_identifier account_of role_kind c"
    by (simp add: deploy_roles_def cfn_deploy_def role_identifier_def is_cfn_deploy_def)
  have c: "map (\<lambda>c. (option_value ''--stack-name'' c, option_value ''--template-file'' c,
                option_value ''--profile'' c)) (map cmd (tl (update_roles env k)))
       = [(Some ''CodePipelineCrossAccountRole'',
           Some ''templates/CodePipelineCrossAccountRole.yml'', Some ''uat''),
          (Some ''CloudFormationDeploymentRole'',
           Some ''templates/CloudFormationDeploymentRole.yml'', Some ''uat''),
          (Some ''CloudFormationDeploymentRole'',
           Some ''templates/CloudFormationDeploymentRole.yml'', Some ''prod''),
          (Some ''CodePipelineCrossAccountRole'',
           Some ''templates/CodePipelineCrossAccountRole.yml'', Some ''prod'')]"
    by (simp add: update_roles_def cfn_deploy_def)
  have d: "map (words_after ''--parameter-overrides'') (map cmd (tl (deploy_roles env)))
       = [split_words (''ToolsAccountID='' @ expand env ''TOOLS_ACCOUNT_ID'') @ [''Stage=Uat''],
          split_words (''ToolsAccountID='' @ expand env ''TOOLS_ACCOUNT_ID'') @ [''Stage=Uat''],
          split_words (''ToolsAccountID='' @ expand env ''TOOLS_ACCOUNT_ID'') @ [''Stage=Prod''],
          split_words (''ToolsAccountID='' @ expand env ''TOOLS_ACCOUNT_ID'') @ [''Stage=Prod'']]"
    by (simp add: deploy_roles_def cfn_deploy_def)
  have e: "split_words (''KeyArn='' @ k) = [''KeyArn='' @ k]" if "\<forall>ch\<in>set k. \<not> is_blank ch"
    using that by (intro split_words_one) (auto simp: is_blank_def newline_def)
  from a b c d e show ?thesis by blast
qed

text \<open>
  Witness for C6: the sample accounts and the key of the sample output.
\<close>

theorem update_roles_same_stacks_witness:
  "map cmd (tl (update_roles sample_accounts ''arn:aws:kms:us-west-2:111:key/abc'')) =
     map (\<lambda>c. c @ [''KeyArn=arn:aws:kms:us-west-2:111:key/abc''])
       [cmd (deploy_roles sample_accounts ! 1), cmd (deploy_roles sample_accounts ! 2),
        cmd (deploy_roles sample_accounts ! 4), cmd (deploy_roles sample_accounts ! 3)]
   \<and> role_identifier (\<lambda>p. if p = Some ''uat'' then ''222'' else ''333'')
        (\<lambda>t. if t = Some ''templates/CodePipelineCrossAccountRole.yml''
             then ''CodePipelineCrossAccountRole'' else ''CloudFormationDeploymentRole'')
        (cmd (deploy_roles sample_accounts ! 1) @ [''KeyArn=arn:aws:kms:us-west-2:111:key/abc''])
      = role_identifier (\<lambda>p. if p = Some ''uat'' then ''222'' else ''333'')
        (\<lambda>t. if t = Some ''templates/CodePipelineCrossAccountRole.yml''
             then ''CodePipelineCrossAccountRole'' else ''CloudFormationDeploymentRole'')
        (cmd (deploy_roles sample_accounts ! 1))"
proof -
  note t = update_roles_same_stacks[of sample_accounts "''arn:aws:kms:us-west-2:111:key/abc''"
      "\<lambda>p. if p = Some ''uat'' then ''222'' else ''333''"
      "\<lambda>t. if t = Some ''templates/CodePipelineCrossAccountRole.yml''
             then ''CodePipelineCrossAccountRole'' else ''CloudFormationDeploymentRole''"]
  have n: "\<forall>ch\<in>set ''arn:aws:kms:us-west-2:111:key/abc''. \<not> is_blank ch"
    by (simp add: is_blank_def newline_def)
  from t n have k: "split_words (''KeyArn='' @ ''arn:aws:kms:us-west-2:111:key/abc'')
      = [''KeyArn=arn:aws:kms:us-west-2:111:key/abc'']"
    by simp
  have m: "cmd (deploy_roles sample_accounts ! 1) \<in> set (map cmd (tl (deploy_roles sample_accounts)))"
    by (simp add: deploy_roles_def)
  from t have "\<forall>c\<in>set (map cmd (tl (deploy_roles sample_accounts))).
      role_identifier (\<lambda>p. if p = Some ''uat'' then ''222'' else ''333'')
        (\<lambda>t. if t = Some ''templates/CodePipelineCrossAccountRole.yml''
             then ''CodePipelineCrossAccountRole'' else ''CloudFormationDeploymentRole'')
        (c @ split_words (''KeyArn='' @ ''arn:aws:kms:us-west-2:111:key/abc''))
      = role_identifier (\<lambda>p. if p = Some ''uat'' then ''222'' else ''333'')
        (\<lambda>t. if t = Some ''templates/CodePipelineCrossAccountRole.yml''
             then ''CodePipelineCrossAccountRole'' else ''CloudFormationDeploymentRole'') c"
    by blast
  with m have r: "role_identifier (\<lambda>p. if p = Some ''uat'' then ''222'' else ''333'')
        (\<lambda>t. if t = Some ''templates/CodePipelineCrossAccountRole.yml''
             then ''CodePipelineCrossAccountRole'' else ''CloudFormationDeploymentRole'')
        (cmd (deploy_roles sample_accounts ! 1) @ split_words (''KeyArn='' @ ''arn:aws:kms:us-west-2:111:key/abc''))
      = role_identifier (\<lambda>p. if p = Some ''uat'' then ''222'' else ''333'')
        (\<lambda>t. if t = Some ''templates/CodePipelineCrossAccountRole.yml''
             then ''CodePipelineCrossAccountRole'' else ''CloudFormationDeploymentRole'')
        (cmd (deploy_roles sample_accounts ! 1))"
    by blast
  from t have "map cmd (tl (update_roles sample_accounts ''arn:aws:kms:us-west-2:111:key/abc'')) =
     map (\<lambda>c. c @ split_words (''KeyArn='' @ ''arn:aws:kms:us-west-2:111:key/abc''))
       [cmd (deploy_roles sample_accounts ! 1), cmd (deploy_roles sample_accounts ! 2),
        cmd (deploy_roles sample_accounts ! 4), cmd (deploy_roles sample_accounts ! 3)]"
    by blast
  with r show ?thesis
    unfolding k by blast
qed

section \<open>Executions (C1)\<close>

lemma run_append:
  "run st s (a @ b) = (case run st s a of None \<Rightarrow> None | Some s' \<Rightarrow> run st s' b)"
  by (induction a arbitrary: s) (auto split: option.splits)

lemma script_events_append:
  "script_events st (a @ b) = script_events st a @ script_events st b"
  by (simp add: script_events_def)

lemma script_events_Cons:
  "script_events st (j # js) = job_events st j @ script_events st js"
  by (simp add: script_events_def)

lemma Started_script_events: "Started j \<in> set (script_events st js) \<Longrightarrow> j \<in> set js"
proof (induction js)
  case Nil
  then show ?case by (simp add: script_events_def)
next
  case (Cons k js)
  then show ?case by (cases k) (auto simp: script_events_Cons)
qed

lemma step_ordered:
  assumes "waits_on_foreground s" and "step st s e = Some s'"
  shows "waits_on_foreground s'
    \<and> (if ordered e then e # pending_events st s' else pending_events st s') = pending_events st s"
proof (cases e)
  case (Started j)
  with assms(2) obtain rest where s: "waiting s = None" "todo s = j # rest"
    by (auto split: option.splits list.splits if_splits)
  show ?thesis
  proof (cases j)
    case (Foreground c)
    with Started s assms(2) have "s' = s\<lparr>todo := rest, waiting := Some j\<rparr>"
      by simp
    with Started Foreground s show ?thesis
      by (simp add: waits_on_foreground_def pending_events_def script_events_Cons)
  next
    case (Background c)
    with Started s assms(2) have "s' = s\<lparr>todo := rest, running := j # running s\<rparr>"
      by simp
    with Started Background s show ?thesis
      by (simp add: waits_on_foreground_def pending_events_def script_events_Cons)
  qed
next
  case (Finished j n)
  with assms(2) have n: "n = st (cmd j)"
    by (auto split: if_splits)
  show ?thesis
  proof (cases j)
    case (Foreground c)
    with Finished assms(2) n have "waiting s = Some j" "s' = s\<lparr>waiting := None\<rparr>"
      by (auto split: if_splits)
    with Finished Foreground n show ?thesis
      by (simp add: waits_on_foreground_def pending_events_def)
  next
    case (Background c)
    with Finished assms(2) n have "s' = s\<lparr>running := remove1 j (running s)\<rparr>"
      by (auto split: if_splits)
    with Finished Background assms(1) show ?thesis
      by (simp add: waits_on_foreground_def pending_events_def)
  qed
qed

lemma run_ordered:
  "waits_on_foreground s \<Longrightarrow> run st s tr = Some s' \<Longrightarrow>
     filter ordered tr @ pending_events st s' = pending_events st s"
proof (induction tr arbitrary: s)
  case Nil
  then show ?case by simp
next
  case (Cons e tr)
  from Cons.prems(2) obtain s1 where s1: "step st s e = Some s1" "run st s1 tr = Some s'"
    by (auto split: option.splits)
  from step_ordered[OF Cons.prems(1) s1(1)]
  have w: "waits_on_foreground s1"
    and p: "(if ordered e then e # pending_events st s1 else pending_events st s1) = pending_events st s"
    by blast+
  from Cons.IH[OF w s1(2)] have "filter ordered tr @ pending_events st s' = pending_events st s1" .
  with p show ?case by (cases "ordered e") auto
qed

lemma append_Cons_split:
  "xs @ y # ys = as @ bs \<Longrightarrow> y \<in> set as \<or> set as \<subseteq> set xs"
  by (auto simp: append_eq_append_conv2 append_eq_Cons_conv Cons_eq_append_conv)

lemma foreground_barrier:
  assumes ex: "execution st (p1 @ later) (tr1 @ Started j # tr2)" and j: "j \<notin> set p1"
  shows "set (script_events st p1) \<subseteq> set tr1"
proof -
  from ex obtain s1 s2 where r: "run st (start (p1 @ later)) tr1 = Some s1"
    and s: "step st s1 (Started j) = Some s2"
    by (auto simp: execution_def run_append split: option.splits)
  from s obtain rest where t: "waiting s1 = None" "todo s1 = j # rest"
    by (auto split: option.splits list.splits if_splits)
  then obtain ys where p: "pending_events st s1 = Started j # ys"
    by (cases j) (auto simp: pending_events_def script_events_Cons)
  have "waits_on_foreground (start (p1 @ later))"
    by (simp add: waits_on_foreground_def start_def)
  from run_ordered[OF this r] p
  have "filter ordered tr1 @ Started j # ys = script_events st p1 @ script_events st later"
    by (simp add: pending_events_def start_def script_events_append)
  from append_Cons_split[OF this] j Started_script_events[of j st p1]
  have "set (script_events st p1) \<subseteq> set (filter ordered tr1)"
    by blast
  then show ?thesis by auto
qed

lemma early_cdk_deploy_execution: "execution (exit_status prod_role_fails) (automate_deployment sample_accounts prod_role_fails)
     early_cdk_deploy"
  by (simp add: early_cdk_deploy_def jobs_prod_role_fails execution_def start_def Let_def
      roles_sample deploy_repository_stack_def cfn_deploy_def status_prod_role_fails)

lemma early_cdk_deploy_events: "last early_cdk_deploy =
       Started (Foreground [''cdk'', ''deploy'', ''RepositoryStack'', em_dash @ ''profile'', ''pipeline''])
   \<and> Finished (deploy_roles sample_accounts ! 4) 1 \<in> set early_cdk_deploy
   \<and> Finished (deploy_roles sample_accounts ! 1) 0 \<notin> set early_cdk_deploy"
    by (simp add: early_cdk_deploy_def Let_def
      roles_sample deploy_repository_stack_def cfn_deploy_def)

lemma early_cdk_deploy_not_joined: "\<not> joined_before (tl (deploy_roles sample_accounts)) [] early_cdk_deploy"
    by (simp add: early_cdk_deploy_def Let_def
      roles_sample deploy_repository_stack_def cfn_deploy_def
      is_deployment_def is_cfn_deploy_def is_cdk_deploy_def succeeded_def)

text \<open>
  C1, as stated, fails: the script has no \<^verbatim>\<open>wait\<close> and tests no exit status. In the
  execution \<open>early_cdk_deploy\<close> the foreground role deployment has ended with status 1,
  the three background role deployments have not ended, and
  \<^verbatim>\<open>cdk deploy RepositoryStack\<close> starts.
\<close>

theorem cdk_deploy_before_roles_complete:
  "execution (exit_status prod_role_fails) (automate_deployment sample_accounts prod_role_fails)
     early_cdk_deploy
   \<and> last early_cdk_deploy =
       Started (Foreground [''cdk'', ''deploy'', ''RepositoryStack'', em_dash @ ''profile'', ''pipeline''])
   \<and> Finished (deploy_roles sample_accounts ! 4) 1 \<in> set early_cdk_deploy
   \<and> Finished (deploy_roles sample_accounts ! 1) 0 \<notin> set early_cdk_deploy
   \<and> \<not> joined_before (tl (deploy_roles sample_accounts)) [] early_cdk_deploy"
  using early_cdk_deploy_execution early_cdk_deploy_events early_cdk_deploy_not_joined
  by blast

text \<open>
  C1, amended. In every execution of the script, when a job that does not belong to
  the first role step starts, the four role deployments (CodePipelineCrossAccountRole
  and CloudFormationDeploymentRole, for UAT and for Prod) have all been started, and
  the last of them, the foreground deployment of CloudFormationDeploymentRole to Prod,
  has ended, with whatever exit status.
\<close>

theorem roles_dispatched_before_advancing:
  assumes acc: "\<not> accounts_missing env"
    and ex: "execution (exit_status w) (automate_deployment env w) (tr1 @ Started j # tr2)"
    and j: "j \<notin> set (deploy_roles env)"
  shows "list_all (\<lambda>d. Started d \<in> set tr1) (tl (deploy_roles env))
    \<and> Finished (deploy_roles env ! 4) (exit_status w (cmd (deploy_roles env ! 4))) \<in> set tr1
    \<and> map (\<lambda>d. (option_value ''--stack-name'' (cmd d), option_value ''--profile'' (cmd d)))
          (tl (deploy_roles env))
        = [(Some ''CodePipelineCrossAccountRole'', Some ''uat''),
           (Some ''CloudFormationDeploymentRole'', Some ''uat''),
           (Some ''CodePipelineCrossAccountRole'', Some ''prod''),
           (Some ''CloudFormationDeploymentRole'', Some ''prod'')]"
proof -
  from acc obtain later where "automate_deployment env w = deploy_roles env @ later"
    by (simp add: automate_deployment_def)
  with ex have "execution (exit_status w) (deploy_roles env @ later) (tr1 @ Started j # tr2)"
    by simp
  from foreground_barrier[OF this j]
  have sub: "set (script_events (exit_status w) (deploy_roles env)) \<subseteq> set tr1" .
  have "list_all (\<lambda>d. Started d \<in> set (script_events (exit_status w) (deploy_roles env)))
          (tl (deploy_roles env))
    \<and> Finished (deploy_roles env ! 4) (exit_status w (cmd (deploy_roles env ! 4)))
        \<in> set (script_events (exit_status w) (deploy_roles env))"
    by (simp add: deploy_roles_def script_events_def)
  with sub have "list_all (\<lambda>d. Started d \<in> set tr1) (tl (deploy_roles env))
    \<and> Finished (deploy_roles env ! 4) (exit_status w (cmd (deploy_roles env ! 4))) \<in> set tr1"
    by (auto simp: list_all_iff)
  moreover have "map (\<lambda>d. (option_value ''--stack-name'' (cmd d), option_value ''--profile'' (cmd d)))
          (tl (deploy_roles env))
        = [(Some ''CodePipelineCrossAccountRole'', Some ''uat''),
           (Some ''CloudFormationDeploymentRole'', Some ''uat''),
           (Some ''CodePipelineCrossAccountRole'', Some ''prod''),
           (Some ''CloudFormationDeploymentRole'', Some ''prod'')]"
    by (simp add: deploy_roles_def cfn_deploy_def)
  ultimately show ?thesis by blast
qed

text \<open>
  Witness for C1: the execution \<open>early_cdk_deploy\<close>, up to the start of
  \<^verbatim>\<open>cdk deploy RepositoryStack\<close>.
\<close>

theorem roles_dispatched_before_advancing_witness:
  "execution (exit_status prod_role_fails) (automate_deployment sample_accounts prod_role_fails)
     (butlast early_cdk_deploy @ Started (deploy_repository_stack ! 5) # [])
   \<and> list_all (\<lambda>d. Started d \<in> set (butlast early_cdk_deploy)) (tl (deploy_roles sample_accounts))
   \<and> Finished (deploy_roles sample_accounts ! 4) 1 \<in> set (butlast early_cdk_deploy)"
proof -
  have a: "\<not> accounts_missing sample_accounts"
    by (simp add: accounts_missing_def expand_def sample_accounts_def)
  have e: "butlast early_cdk_deploy @ Started (deploy_repository_stack ! 5) # [] = early_cdk_deploy"
    by (simp add: early_cdk_deploy_def Let_def)
  have x: "execution (exit_status prod_role_fails) (automate_deployment sample_accounts prod_role_fails)
     (butlast early_cdk_deploy @ Started (deploy_repository_stack ! 5) # [])"
    unfolding e by (rule early_cdk_deploy_execution)
  have n: "deploy_repository_stack ! 5 \<notin> set (deploy_roles sample_accounts)"
    by (simp add: roles_sample deploy_repository_stack_def cfn_deploy_def)
  have s: "exit_status prod_role_fails (cmd (deploy_roles sample_accounts ! 4)) = 1"
    by (simp add: prod_role_fails_def)
  from roles_dispatched_before_advancing[OF a x n] x s show ?thesis
    by simp
qed

section \<open>The stacks\<close>

text \<open>
  C10. For every stage name given to \<^verbatim>\<open>ApplicationStack\<close>, the variable
  \<^verbatim>\<open>STAGE_NAME\<close> of the function, the stage name of the API deployment and the alias
  name are that stage name, and the function name is \<^verbatim>\<open>HelloLambda\<close>. Two application
  stacks differ only in those three values (and in the construct id the stack is
  created with); so do the UAT and the Prod stack of the app.
\<close>

theorem application_stack_stage_name:
  "environment (func (ApplicationStack id' \<lparr>stageName = s\<rparr>)) = [(''STAGE_NAME'', s)]
   \<and> deployOptions_stageName (restApi (ApplicationStack id' \<lparr>stageName = s\<rparr>)) = s
   \<and> aliasName (lambdaAlias (ApplicationStack id' \<lparr>stageName = s\<rparr>)) = s
   \<and> functionName (func (ApplicationStack id' \<lparr>stageName = s\<rparr>)) = ''HelloLambda''
   \<and> ApplicationStack id' \<lparr>stageName = s\<rparr>
       = with_stage s (ApplicationStack id' \<lparr>stageName = s'\<rparr>)
   \<and> app_uatApplicationStack (app tryGetContext process_env account)
       = (with_stage ''uat'' (app_prodApplicationStack (app tryGetContext process_env account)))
           \<lparr>stack_id := ''UatApplicationStack''\<rparr>
   \<and> app_prodApplicationStack (app tryGetContext process_env account)
       = (with_stage ''prod'' (app_uatApplicationStack (app tryGetContext process_env account)))
           \<lparr>stack_id := ''ProdApplicationStack''\<rparr>"
  by (simp add: ApplicationStack_def with_stage_def app_def Let_def)

text \<open>
  C8. The two variants of \<^verbatim>\<open>PipelineStack\<close> declare the same constructs with the same
  properties, but for \<^verbatim>\<open>adminPermissions\<close> on the deploy actions of the stages
  \<^verbatim>\<open>Deploy_Uat\<close> and \<^verbatim>\<open>Deploy_Prod\<close>: false in the one, true in the other.
\<close>

theorem pipeline_variants_differ_in_adminPermissions:
  "PipelineStack_admin account id' props = with_adminPermissions True (PipelineStack account id' props)
   \<and> PipelineStack account id' props = with_adminPermissions False (PipelineStack_admin account id' props)
   \<and> admin_flags (PipelineStack account id' props)
       = [(''Source'', []), (''Build'', []), (''Deploy_Uat'', [False]), (''Deploy_Prod'', [False])]
   \<and> admin_flags (PipelineStack_admin account id' props)
       = [(''Source'', []), (''Build'', []), (''Deploy_Uat'', [True]), (''Deploy_Prod'', [True])]"
  by (simp add: PipelineStack_def PipelineStack_admin_def with_adminPermissions_def admin_flags_def Let_def)

lemma starts_with_append: "starts_with pat (pat @ r)"
  by (induction pat) auto

lemma contains_append: "contains pat (p @ pat @ r)"
proof (induction p)
  case Nil
  show ?case by (cases "pat @ r") (use starts_with_append[of pat r] in auto)
next
  case (Cons c p)
  then show ?case by simp
qed

lemma split_blank_app:
  "\<forall>c\<in>set s. \<not> is_blank c \<Longrightarrow> split_blank w (s @ t) = split_blank (w @ s) t"
  by (induction s arbitrary: w) auto

lemma awk_output_line:
  assumes p: "\<forall>c\<in>set p. \<not> is_blank c" and n: "\<forall>c\<in>set name. \<not> is_blank c" "name \<noteq> []"
    and a: "\<forall>c\<in>set arn. \<not> is_blank c" "arn \<noteq> []"
  shows "awk_field 3 (p @ name @ '' = '' @ arn) = arn"
proof -
  from p n have "\<forall>c\<in>set (p @ name). \<not> is_blank c" by auto
  then have "split_blank [] ((p @ name) @ '' = '' @ arn) = split_blank (p @ name) ('' = '' @ arn)"
    using split_blank_app[of "p @ name" "[]" "'' = '' @ arn"] by simp
  also have "\<dots> = (p @ name) # ''='' # split_blank [] arn"
    using n by (simp add: is_blank_def newline_def)
  also have "split_blank [] arn = [arn]"
    using a by (simp add: split_blank_one)
  finally show ?thesis by (simp add: awk_field_def)
qed

lemma key_arn_extract_single:
  assumes "filter (contains ''KeyArn'') (sed_range False (lines_of inp)) = [k]"
  shows "key_arn_extract inp = awk_field 3 k"
  using assms awk_field_no_newline[of 3 k]
  by (simp add: key_arn_extract_def awk_sed unlines_def command_substitution_line)

lemma blank_free_no_newline: "\<forall>c\<in>set s. \<not> is_blank c \<Longrightarrow> newline \<notin> set s"
  by (auto simp: is_blank_def)

lemma select_output_line:
  assumes pre: "\<forall>l\<in>set pre. \<not> contains ''Outputs:'' l \<and> newline \<notin> set l"
    and post: "\<forall>l\<in>set post. \<not> contains ''Outputs:'' l \<and> newline \<notin> set l"
    and p: "\<forall>c\<in>set p. \<not> is_blank c"
    and a: "\<forall>c\<in>set arn. \<not> is_blank c"
  shows "filter (contains ''KeyArn'') (sed_range False (lines_of (unlines (pre @
      [''Outputs:'', p @ ''ArtifactBucketEncryptionKeyArn'' @ '' = '' @ arn, []] @ post))))
    = [p @ ''ArtifactBucketEncryptionKeyArn'' @ '' = '' @ arn]"
proof -
  let ?line = "p @ ''ArtifactBucketEncryptionKeyArn'' @ '' = '' @ arn"
  let ?ls = "pre @ [''Outputs:'', ?line, []] @ post"
  have nl: "newline \<notin> set ?line"
    using blank_free_no_newline[OF p] blank_free_no_newline[OF a]
    by (simp add: newline_def)
  have "\<forall>l\<in>set ?ls. newline \<notin> set l"
    using pre post nl by (auto simp: newline_def)
  then have ls: "lines_of (unlines ?ls) = ?ls"
    unfolding lines_of_def by (rule lines_unlines)
  have none: "sed_range False post = []"
    using sed_range_skip[of post "[]"] post by simp
  have "sed_range False ?ls = sed_range False ([''Outputs:'', ?line, []] @ post)"
    using pre by (intro sed_range_skip) blast
  also have "\<dots> = [''Outputs:'', ?line, []]"
    by (simp add: none)
  finally have sel: "sed_range False ?ls = [''Outputs:'', ?line, []]" .
  have c: "contains ''KeyArn'' ?line"
    using contains_append[of "''KeyArn''" "p @ ''ArtifactBucketEncryption''" "'' = '' @ arn"]
    by simp
  have "filter (contains ''KeyArn'') (sed_range False (lines_of (unlines ?ls)))
      = filter (contains ''KeyArn'') [''Outputs:'', ?line, []]"
    by (simp only: ls sel)
  also have "\<dots> = [?line]"
    using c by simp
  finally show ?thesis .
qed

text \<open>
  C7, as stated, fails: neither variant has an output whose id or export name is
  \<^verbatim>\<open>KeyArn\<close>; the id is \<^verbatim>\<open>ArtifactBucketEncryptionKeyArn\<close> and the export name
  \<^verbatim>\<open>ArtifactBucketEncryptionKey\<close>. The extraction does not look a name up: it finds
  the key in the sample output, whose line carries that id, and on a text whose only
  output is a bucket name containing \<^verbatim>\<open>KeyArn\<close> it returns that bucket name.
\<close>

theorem key_arn_output_not_named_KeyArn:
  "\<not> list_ex (\<lambda>out. output_id out = ''KeyArn'' \<or> exportName out = ''KeyArn'')
       (cfn_outputs (PipelineStack ''111'' ''CrossAccountPipelineStack'' sample_props))
   \<and> \<not> list_ex (\<lambda>out. output_id out = ''KeyArn'' \<or> exportName out = ''KeyArn'')
       (cfn_outputs (PipelineStack_admin ''111'' ''CrossAccountPipelineStack'' sample_props))
   \<and> map output_id (cfn_outputs (PipelineStack ''111'' ''CrossAccountPipelineStack'' sample_props))
       = [''ArtifactBucketEncryptionKeyArn'']
   \<and> map exportName (cfn_outputs (PipelineStack ''111'' ''CrossAccountPipelineStack'' sample_props))
       = [''ArtifactBucketEncryptionKey'']
   \<and> key_arn_extract sample_output = ''arn:aws:kms:us-west-2:111:key/abc''
   \<and> key_arn_extract key_arn_in_value = ''KeyArnBucket''"
  by (simp add: PipelineStack_def PipelineStack_admin_def Let_def sample_output_def
      key_arn_in_value_def eval_text)

text \<open>
  C7, amended. Both variants of the pipeline stack publish one output: the ARN of the
  key \<^verbatim>\<open>ArtifactKey\<close>, under the id \<^verbatim>\<open>ArtifactBucketEncryptionKeyArn\<close> and the export
  name \<^verbatim>\<open>ArtifactBucketEncryptionKey\<close>. Every line containing that id matches the
  pattern \<^verbatim>\<open>KeyArn\<close>, and on a line \<^verbatim>\<open><prefix><id> = <arn>\<close> (prefix and ARN without
  blanks) the third field is the ARN. When the text printed by \<^verbatim>\<open>cdk deploy\<close> holds,
  after lines without \<^verbatim>\<open>Outputs:\<close>, the line \<^verbatim>\<open>Outputs:\<close>, the line
  \<^verbatim>\<open><prefix><id> = <arn>\<close> built from the id of an output of the stack, an empty line
  and then lines without \<^verbatim>\<open>Outputs:\<close>, then that line is the one line the script's
  sed and awk select, awk prints the ARN, and \<^verbatim>\<open>KEY_ARN\<close> is the ARN.
\<close>

theorem key_arn_output_name:
  "cfn_outputs (PipelineStack account id' props)
     = [\<lparr>output_id = ''ArtifactBucketEncryptionKeyArn'',
         output_value = keyArn (key_id (key (PipelineStack account id' props))),
         exportName = ''ArtifactBucketEncryptionKey''\<rparr>]
   \<and> cfn_outputs (PipelineStack_admin account id' props)
     = [\<lparr>output_id = ''ArtifactBucketEncryptionKeyArn'',
         output_value = keyArn (key_id (key (PipelineStack_admin account id' props))),
         exportName = ''ArtifactBucketEncryptionKey''\<rparr>]
   \<and> contains ''KeyArn'' (p @ ''ArtifactBucketEncryptionKeyArn'' @ r)
   \<and> ((\<forall>c\<in>set p. \<not> is_blank c) \<and> (\<forall>c\<in>set arn. \<not> is_blank c) \<and> arn \<noteq> [] \<longrightarrow>
        awk_field 3 (p @ ''ArtifactBucketEncryptionKeyArn'' @ '' = '' @ arn) = arn)
   \<and> (out \<in> set (cfn_outputs (PipelineStack account id' props))
             \<union> set (cfn_outputs (PipelineStack_admin account id' props))
       \<and> (\<forall>l\<in>set pre. \<not> contains ''Outputs:'' l \<and> newline \<notin> set l)
       \<and> (\<forall>l\<in>set post. \<not> contains ''Outputs:'' l \<and> newline \<notin> set l)
       \<and> (\<forall>c\<in>set p. \<not> is_blank c) \<and> (\<forall>c\<in>set arn. \<not> is_blank c) \<and> arn \<noteq> []
       \<and> cdk_deploy_output w
           = unlines (pre @ [''Outputs:'', p @ output_id out @ '' = '' @ arn, []] @ post)
       \<longrightarrow>
        filter (contains ''KeyArn'') (sed_range False (lines_of (cdk_deploy_output w)))
          = [p @ output_id out @ '' = '' @ arn]
        \<and> awk_KeyArn (sed_Outputs (cdk_deploy_output w)) = arn @ [newline]
        \<and> key_arn_extract (cdk_deploy_output w) = arn
        \<and> KEY_ARN w = arn)"
proof -
  have o: "cfn_outputs (PipelineStack account id' props)
     = [\<lparr>output_id = ''ArtifactBucketEncryptionKeyArn'',
         output_value = keyArn (key_id (key (PipelineStack account id' props))),
         exportName = ''ArtifactBucketEncryptionKey''\<rparr>]"
    by (simp add: PipelineStack_def Let_def)
  have o': "cfn_outputs (PipelineStack_admin account id' props)
     = [\<lparr>output_id = ''ArtifactBucketEncryptionKeyArn'',
         output_value = keyArn (key_id (key (PipelineStack_admin account id' props))),
         exportName = ''ArtifactBucketEncryptionKey''\<rparr>]"
    by (simp add: PipelineStack_admin_def Let_def)
  have c: "contains ''KeyArn'' (p @ ''ArtifactBucketEncryptionKeyArn'' @ r)"
    using contains_append[of "''KeyArn''" "p @ ''ArtifactBucketEncryption''" r] by simp
  have f: "awk_field 3 (p @ ''ArtifactBucketEncryptionKeyArn'' @ '' = '' @ arn) = arn"
    if "\<forall>c\<in>set p. \<not> is_blank c" "\<forall>c\<in>set arn. \<not> is_blank c" "arn \<noteq> []"
    using that by (intro awk_output_line) (auto simp: is_blank_def newline_def)
  have x: "filter (contains ''KeyArn'') (sed_range False (lines_of (cdk_deploy_output w)))
          = [p @ output_id out @ '' = '' @ arn]
        \<and> awk_KeyArn (sed_Outputs (cdk_deploy_output w)) = arn @ [newline]
        \<and> key_arn_extract (cdk_deploy_output w) = arn
        \<and> KEY_ARN w = arn"
    if m: "out \<in> set (cfn_outputs (PipelineStack account id' props))
             \<union> set (cfn_outputs (PipelineStack_admin account id' props))"
      and pre: "\<forall>l\<in>set pre. \<not> contains ''Outputs:'' l \<and> newline \<notin> set l"
      and post: "\<forall>l\<in>set post. \<not> contains ''Outputs:'' l \<and> newline \<notin> set l"
      and p: "\<forall>c\<in>set p. \<not> is_blank c" and a: "\<forall>c\<in>set arn. \<not> is_blank c" "arn \<noteq> []"
      and w: "cdk_deploy_output w
           = unlines (pre @ [''Outputs:'', p @ output_id out @ '' = '' @ arn, []] @ post)"
  proof -
    from m o o' have n: "output_id out = ''ArtifactBucketEncryptionKeyArn''"
      by auto
    have s: "filter (contains ''KeyArn'') (sed_range False (lines_of (cdk_deploy_output w)))
          = [p @ output_id out @ '' = '' @ arn]"
      unfolding w n by (rule select_output_line[OF pre post p a(1)])
    have k: "key_arn_extract (cdk_deploy_output w) = awk_field 3 (p @ output_id out @ '' = '' @ arn)"
      using s by (rule key_arn_extract_single)
    have v: "awk_field 3 (p @ output_id out @ '' = '' @ arn) = arn"
      unfolding n using p a by (rule f)
    have "awk_KeyArn (sed_Outputs (cdk_deploy_output w))
        = unlines [awk_field 3 (p @ output_id out @ '' = '' @ arn)]"
      by (simp only: awk_sed s list.map)
    then have u: "awk_KeyArn (sed_Outputs (cdk_deploy_output w)) = arn @ [newline]"
      by (simp only: v) (simp add: unlines_def)
    from k v have e: "key_arn_extract (cdk_deploy_output w) = arn"
      by (rule trans)
    then have "KEY_ARN w = arn"
      by (simp only: KEY_ARN_extract)
    with s u e show ?thesis
      by blast
  qed
  from o o' c f x show ?thesis by blast
qed

text \<open>
  Witness for C7: the sample output, whose output line is built from the id of the
  stack's output.
\<close>

theorem key_arn_output_name_witness:
  "KEY_ARN all_succeed = ''arn:aws:kms:us-west-2:111:key/abc''
   \<and> key_arn_extract (cdk_deploy_output all_succeed) = ''arn:aws:kms:us-west-2:111:key/abc''
   \<and> awk_KeyArn (sed_Outputs (cdk_deploy_output all_succeed))
       = ''arn:aws:kms:us-west-2:111:key/abc'' @ [newline]
   \<and> contains ''KeyArn'' ''CrossAccountPipelineStack.ArtifactBucketEncryptionKeyArn = arn:aws:kms:us-west-2:111:key/abc''
   \<and> awk_field 3 ''CrossAccountPipelineStack.ArtifactBucketEncryptionKeyArn = arn:aws:kms:us-west-2:111:key/abc''
       = ''arn:aws:kms:us-west-2:111:key/abc''
   \<and> map output_id (cfn_outputs (PipelineStack ''111'' ''CrossAccountPipelineStack'' sample_props))
       = [''ArtifactBucketEncryptionKeyArn'']"
proof -
  let ?out = "hd (cfn_outputs (PipelineStack ''111'' ''CrossAccountPipelineStack'' sample_props))"
  note t = key_arn_output_name[of "''111''" "''CrossAccountPipelineStack''" sample_props
      "''CrossAccountPipelineStack.''" "'' = arn:aws:kms:us-west-2:111:key/abc''"
      "''arn:aws:kms:us-west-2:111:key/abc''" ?out
      "['' CrossAccountPipelineStack'', []]" "[''Stack ARN:'']" all_succeed]
  have h: "(\<forall>c\<in>set ''CrossAccountPipelineStack.''. \<not> is_blank c)
      \<and> (\<forall>c\<in>set ''arn:aws:kms:us-west-2:111:key/abc''. \<not> is_blank c)
      \<and> ''arn:aws:kms:us-west-2:111:key/abc'' \<noteq> []"
    by (simp add: is_blank_def newline_def)
  have m: "?out \<in> set (cfn_outputs (PipelineStack ''111'' ''CrossAccountPipelineStack'' sample_props))
             \<union> set (cfn_outputs (PipelineStack_admin ''111'' ''CrossAccountPipelineStack'' sample_props))"
    by (simp add: PipelineStack_def Let_def)
  have l: "(\<forall>l\<in>set ['' CrossAccountPipelineStack'', []]. \<not> contains ''Outputs:'' l \<and> newline \<notin> set l)
      \<and> (\<forall>l\<in>set [''Stack ARN:'']. \<not> contains ''Outputs:'' l \<and> newline \<notin> set l)"
    by (simp add: newline_def)
  have w: "cdk_deploy_output all_succeed
           = unlines (['' CrossAccountPipelineStack'', []] @ [''Outputs:'',
               ''CrossAccountPipelineStack.'' @ output_id ?out @ '' = ''
                 @ ''arn:aws:kms:us-west-2:111:key/abc'', []] @ [''Stack ARN:''])"
    by (simp add: all_succeed_def sample_output_def unlines_def PipelineStack_def Let_def)
  from t h m l w have x: "KEY_ARN all_succeed = ''arn:aws:kms:us-west-2:111:key/abc''
      \<and> key_arn_extract (cdk_deploy_output all_succeed) = ''arn:aws:kms:us-west-2:111:key/abc''
      \<and> awk_KeyArn (sed_Outputs (cdk_deploy_output all_succeed))
          = ''arn:aws:kms:us-west-2:111:key/abc'' @ [newline]"
    by blast
  from t h have a: "awk_field 3 (''CrossAccountPipelineStack.'' @ ''ArtifactBucketEncryptionKeyArn''
      @ '' = '' @ ''arn:aws:kms:us-west-2:111:key/abc'') = ''arn:aws:kms:us-west-2:111:key/abc''"
    by blast
  from t have c: "contains ''KeyArn'' (''CrossAccountPipelineStack.'' @ ''ArtifactBucketEncryptionKeyArn''
      @ '' = arn:aws:kms:us-west-2:111:key/abc'')"
    by blast
  from t have "map output_id (cfn_outputs (PipelineStack ''111'' ''CrossAccountPipelineStack'' sample_props))
       = [''ArtifactBucketEncryptionKeyArn'']"
    by simp
  with x a c show ?thesis by simp
qed

lemmas app_defs = app_def new_app_def new_PipelineStack_def new_AccountPrincipal_def
  app_uatAccountId_def app_prodAccountId_def js_or_def truthy_def

lemma new_app_Inr:
  "app_uatAccountId c e = Some u \<Longrightarrow> app_prodAccountId c e = Some q \<Longrightarrow>
     new_app c e account = Inr (app c e account)"
  by (simp add: app_def new_app_def new_PipelineStack_def new_AccountPrincipal_def Let_def)

lemma app_pipeline:
  "app_uatAccountId c e = Some u \<Longrightarrow> app_prodAccountId c e = Some q \<Longrightarrow>
     crossAccountPipelineStack (app c e account)
       = PipelineStack account ''CrossAccountPipelineStack''
           \<lparr>uatApplicationStack = ApplicationStack ''UatApplicationStack'' \<lparr>stageName = ''uat''\<rparr>,
            uatAccountId = Some u,
            prodApplicationStack = ApplicationStack ''ProdApplicationStack'' \<lparr>stageName = ''prod''\<rparr>,
            prodAccountId = Some q\<rparr>"
  by (simp add: app_def Let_def)

lemma pipeline_targets:
  "map stage_name (stages (pipeline (PipelineStack account id'
        \<lparr>uatApplicationStack = ua, uatAccountId = Some u,
         prodApplicationStack = pa, prodAccountId = Some q\<rparr>)))
       = [''Source'', ''Build'', ''Deploy_Uat'', ''Deploy_Prod'']
   \<and> deploy_targets (PipelineStack account id'
        \<lparr>uatApplicationStack = ua, uatAccountId = Some u,
         prodApplicationStack = pa, prodAccountId = Some q\<rparr>)
       = [(''Deploy_Uat'', ''UatApplicationDeploymentStack'',
           ''arn:aws:iam::'' @ u @ '':role/CodePipelineCrossAccountRole'',
           ''arn:aws:iam::'' @ u @ '':role/CloudFormationDeploymentRole''),
          (''Deploy_Prod'', ''ProdApplicationDeploymentStack'',
           ''arn:aws:iam::'' @ q @ '':role/CodePipelineCrossAccountRole'',
           ''arn:aws:iam::'' @ q @ '':role/CloudFormationDeploymentRole'')]
   \<and> key_grantDecrypt (PipelineStack account id'
        \<lparr>uatApplicationStack = ua, uatAccountId = Some u,
         prodApplicationStack = pa, prodAccountId = Some q\<rparr>)
       = [AccountPrincipal (Some u),
          Role \<lparr>role_id = ''UatCrossAccountRole'',
                roleArn = ''arn:aws:iam::'' @ u @ '':role/CodePipelineCrossAccountRole'',
                mutable = False\<rparr>,
          AccountPrincipal (Some q),
          Role \<lparr>role_id = ''ProdCrossAccountRole'',
                roleArn = ''arn:aws:iam::'' @ q @ '':role/CodePipelineCrossAccountRole'',
                mutable = False\<rparr>]
   \<and> bucket_grants (PipelineStack account id'
        \<lparr>uatApplicationStack = ua, uatAccountId = Some u,
         prodApplicationStack = pa, prodAccountId = Some q\<rparr>)
       = [(''grantPut'', AccountPrincipal (Some u)), (''grantRead'', AccountPrincipal (Some u)),
          (''grantPut'', AccountPrincipal (Some q)), (''grantRead'', AccountPrincipal (Some q))]
   \<and> pipeline_addToRolePolicy (PipelineStack account id'
        \<lparr>uatApplicationStack = ua, uatAccountId = Some u,
         prodApplicationStack = pa, prodAccountId = Some q\<rparr>)
       = [\<lparr>statement_actions = [''sts:AssumeRole''],
           resources = [''arn:aws:iam::'' @ u @ '':role/*'', ''arn:aws:iam::'' @ q @ '':role/*'']\<rparr>]"
  by (simp add: PipelineStack_def deploy_targets_def template_string_def Let_def)

lemma js_or_default: "\<exists>x. js_or a (Some t) = Some x"
  by (cases a) (auto simp: js_or_def truthy_def)

text \<open>
  C9, as stated, fails when neither environment variable is set either: the account
  id is then \<^verbatim>\<open>undefined\<close> and the construction of the pipeline stack fails in
  \<^verbatim>\<open>new iam.AccountPrincipal\<close>.
\<close>

theorem construction_fails_without_account:
  "app_uatAccountId Map.empty Map.empty = None
   \<and> app_prodAccountId Map.empty Map.empty = None
   \<and> new_app Map.empty Map.empty ''111'' = Inl AccountIdNotString"
  by (simp add: app_defs)

text \<open>
  C9, amended. Without \<^verbatim>\<open>uat-account\<close> (or \<^verbatim>\<open>prod-account\<close>) in the context, or with
  an empty one, the account id passed to the pipeline stack is \<^verbatim>\<open>CDK_INTEG_ACCOUNT\<close>
  when that is set and non-empty, and otherwise \<^verbatim>\<open>CDK_DEFAULT_ACCOUNT\<close>; a non-empty
  context value is passed as it is. The app checks nothing. The construction does not
  fail when \<^verbatim>\<open>CDK_DEFAULT_ACCOUNT\<close> is set, whatever the context, and more generally
  when both account ids are defined; it fails when one of them is \<^verbatim>\<open>undefined\<close>. The
  pipeline it produces has the four stages, and its deploy actions, key grants, bucket
  grants and role policy name the roles and principals of the two account ids: with no
  context value, no \<^verbatim>\<open>CDK_INTEG_ACCOUNT\<close> and \<^verbatim>\<open>CDK_DEFAULT_ACCOUNT\<close> the tools account,
  both Deploy stages assume the roles of the tools account.
\<close>

theorem missing_account_context_falls_back:
  "((ctx ''uat-account'' = None \<or> ctx ''uat-account'' = Some [])
      \<and> env ''CDK_INTEG_ACCOUNT'' = Some i \<and> i \<noteq> [] \<longrightarrow>
      app_uatAccountId ctx env = Some i)
   \<and> ((ctx ''uat-account'' = None \<or> ctx ''uat-account'' = Some [])
      \<and> (env ''CDK_INTEG_ACCOUNT'' = None \<or> env ''CDK_INTEG_ACCOUNT'' = Some []) \<longrightarrow>
      app_uatAccountId ctx env = env ''CDK_DEFAULT_ACCOUNT'')
   \<and> ((ctx ''prod-account'' = None \<or> ctx ''prod-account'' = Some [])
      \<and> env ''CDK_INTEG_ACCOUNT'' = Some i \<and> i \<noteq> [] \<longrightarrow>
      app_prodAccountId ctx env = Some i)
   \<and> ((ctx ''prod-account'' = None \<or> ctx ''prod-account'' = Some [])
      \<and> (env ''CDK_INTEG_ACCOUNT'' = None \<or> env ''CDK_INTEG_ACCOUNT'' = Some []) \<longrightarrow>
      app_prodAccountId ctx env = env ''CDK_DEFAULT_ACCOUNT'')
   \<and> (ctx ''uat-account'' = Some c \<and> c \<noteq> [] \<longrightarrow> app_uatAccountId ctx env = Some c)
   \<and> (ctx ''prod-account'' = Some c \<and> c \<noteq> [] \<longrightarrow> app_prodAccountId ctx env = Some c)
   \<and> (env ''CDK_DEFAULT_ACCOUNT'' = Some tools \<longrightarrow>
        new_app ctx env account = Inr (app ctx env account))
   \<and> (app_uatAccountId ctx env = Some u \<and> app_prodAccountId ctx env = Some q \<longrightarrow>
        new_app ctx env account = Inr (app ctx env account)
        \<and> map stage_name (stages (pipeline (crossAccountPipelineStack (app ctx env account))))
            = [''Source'', ''Build'', ''Deploy_Uat'', ''Deploy_Prod'']
        \<and> deploy_targets (crossAccountPipelineStack (app ctx env account))
            = [(''Deploy_Uat'', ''UatApplicationDeploymentStack'',
                ''arn:aws:iam::'' @ u @ '':role/CodePipelineCrossAccountRole'',
                ''arn:aws:iam::'' @ u @ '':role/CloudFormationDeploymentRole''),
               (''Deploy_Prod'', ''ProdApplicationDeploymentStack'',
                ''arn:aws:iam::'' @ q @ '':role/CodePipelineCrossAccountRole'',
                ''arn:aws:iam::'' @ q @ '':role/CloudFormationDeploymentRole'')]
        \<and> key_grantDecrypt (crossAccountPipelineStack (app ctx env account))
            = [AccountPrincipal (Some u),
               Role \<lparr>role_id = ''UatCrossAccountRole'',
                     roleArn = ''arn:aws:iam::'' @ u @ '':role/CodePipelineCrossAccountRole'',
                     mutable = False\<rparr>,
               AccountPrincipal (Some q),
               Role \<lparr>role_id = ''ProdCrossAccountRole'',
                     roleArn = ''arn:aws:iam::'' @ q @ '':role/CodePipelineCrossAccountRole'',
                     mutable = False\<rparr>]
        \<and> bucket_grants (crossAccountPipelineStack (app ctx env account))
            = [(''grantPut'', AccountPrincipal (Some u)), (''grantRead'', AccountPrincipal (Some u)),
               (''grantPut'', AccountPrincipal (Some q)), (''grantRead'', AccountPrincipal (Some q))]
        \<and> pipeline_addToRolePolicy (crossAccountPipelineStack (app ctx env account))
            = [\<lparr>statement_actions = [''sts:AssumeRole''],
                resources = [''arn:aws:iam::'' @ u @ '':role/*'',
                             ''arn:aws:iam::'' @ q @ '':role/*'']\<rparr>])
   \<and> ((ctx ''uat-account'' = None \<or> ctx ''uat-account'' = Some [])
       \<and> (ctx ''prod-account'' = None \<or> ctx ''prod-account'' = Some [])
       \<and> (env ''CDK_INTEG_ACCOUNT'' = None \<or> env ''CDK_INTEG_ACCOUNT'' = Some [])
       \<and> env ''CDK_DEFAULT_ACCOUNT'' = Some tools \<longrightarrow>
        new_app ctx env account = Inr (app ctx env account)
        \<and> deploy_targets (crossAccountPipelineStack (app ctx env account))
            = [(''Deploy_Uat'', ''UatApplicationDeploymentStack'',
                ''arn:aws:iam::'' @ tools @ '':role/CodePipelineCrossAccountRole'',
                ''arn:aws:iam::'' @ tools @ '':role/CloudFormationDeploymentRole''),
               (''Deploy_Prod'', ''ProdApplicationDeploymentStack'',
                ''arn:aws:iam::'' @ tools @ '':role/CodePipelineCrossAccountRole'',
                ''arn:aws:iam::'' @ tools @ '':role/CloudFormationDeploymentRole'')]
        \<and> key_grantDecrypt (crossAccountPipelineStack (app ctx env account))
            = [AccountPrincipal (Some tools),
               Role \<lparr>role_id = ''UatCrossAccountRole'',
                     roleArn = ''arn:aws:iam::'' @ tools @ '':role/CodePipelineCrossAccountRole'',
                     mutable = False\<rparr>,
               AccountPrincipal (Some tools),
               Role \<lparr>role_id = ''ProdCrossAccountRole'',
                     roleArn = ''arn:aws:iam::'' @ tools @ '':role/CodePipelineCrossAccountRole'',
                     mutable = False\<rparr>])
   \<and> (app_uatAccountId ctx env = None \<or> app_prodAccountId ctx env = None \<longrightarrow>
        new_app ctx env account = Inl AccountIdNotString)"
proof -
  have fails: "app_uatAccountId ctx env = None \<or> app_prodAccountId ctx env = None \<longrightarrow>
        new_app ctx env account = Inl AccountIdNotString"
    by (auto simp: new_app_def new_PipelineStack_def new_AccountPrincipal_def Let_def
        split: option.splits)
  have u1: "app_uatAccountId ctx env = Some i"
    if "ctx ''uat-account'' = None \<or> ctx ''uat-account'' = Some []"
      "env ''CDK_INTEG_ACCOUNT'' = Some i" "i \<noteq> []"
    using that by (auto simp: app_uatAccountId_def js_or_def truthy_def)
  have u2: "app_uatAccountId ctx env = env ''CDK_DEFAULT_ACCOUNT''"
    if "ctx ''uat-account'' = None \<or> ctx ''uat-account'' = Some []"
      "env ''CDK_INTEG_ACCOUNT'' = None \<or> env ''CDK_INTEG_ACCOUNT'' = Some []"
    using that by (auto simp: app_uatAccountId_def js_or_def truthy_def)
  have p1: "app_prodAccountId ctx env = Some i"
    if "ctx ''prod-account'' = None \<or> ctx ''prod-account'' = Some []"
      "env ''CDK_INTEG_ACCOUNT'' = Some i" "i \<noteq> []"
    using that by (auto simp: app_prodAccountId_def js_or_def truthy_def)
  have p2: "app_prodAccountId ctx env = env ''CDK_DEFAULT_ACCOUNT''"
    if "ctx ''prod-account'' = None \<or> ctx ''prod-account'' = Some []"
      "env ''CDK_INTEG_ACCOUNT'' = None \<or> env ''CDK_INTEG_ACCOUNT'' = Some []"
    using that by (auto simp: app_prodAccountId_def js_or_def truthy_def)
  have u3: "app_uatAccountId ctx env = Some c" if "ctx ''uat-account'' = Some c" "c \<noteq> []"
    using that by (simp add: app_uatAccountId_def js_or_def truthy_def)
  have p3: "app_prodAccountId ctx env = Some c" if "ctx ''prod-account'' = Some c" "c \<noteq> []"
    using that by (simp add: app_prodAccountId_def js_or_def truthy_def)
  have ok: "new_app ctx env account = Inr (app ctx env account)"
    if "env ''CDK_DEFAULT_ACCOUNT'' = Some tools"
  proof -
    from that js_or_default[of "js_or (ctx ''uat-account'') (env ''CDK_INTEG_ACCOUNT'')" tools]
    obtain a where a: "app_uatAccountId ctx env = Some a"
      by (auto simp: app_uatAccountId_def)
    from that js_or_default[of "js_or (ctx ''prod-account'') (env ''CDK_INTEG_ACCOUNT'')" tools]
    obtain b where b: "app_prodAccountId ctx env = Some b"
      by (auto simp: app_prodAccountId_def)
    from a b show ?thesis by (rule new_app_Inr)
  qed
  have obs: "new_app ctx env account = Inr (app ctx env account)
        \<and> map stage_name (stages (pipeline (crossAccountPipelineStack (app ctx env account))))
            = [''Source'', ''Build'', ''Deploy_Uat'', ''Deploy_Prod'']
        \<and> deploy_targets (crossAccountPipelineStack (app ctx env account))
            = [(''Deploy_Uat'', ''UatApplicationDeploymentStack'',
                ''arn:aws:iam::'' @ u @ '':role/CodePipelineCrossAccountRole'',
                ''arn:aws:iam::'' @ u @ '':role/CloudFormationDeploymentRole''),
               (''Deploy_Prod'', ''ProdApplicationDeploymentStack'',
                ''arn:aws:iam::'' @ q @ '':role/CodePipelineCrossAccountRole'',
                ''arn:aws:iam::'' @ q @ '':role/CloudFormationDeploymentRole'')]
        \<and> key_grantDecrypt (crossAccountPipelineStack (app ctx env account))
            = [AccountPrincipal (Some u),
               Role \<lparr>role_id = ''UatCrossAccountRole'',
                     roleArn = ''arn:aws:iam::'' @ u @ '':role/CodePipelineCrossAccountRole'',
                     mutable = False\<rparr>,
               AccountPrincipal (Some q),
               Role \<lparr>role_id = ''ProdCrossAccountRole'',
                     roleArn = ''arn:aws:iam::'' @ q @ '':role/CodePipelineCrossAccountRole'',
                     mutable = False\<rparr>]
        \<and> bucket_grants (crossAccountPipelineStack (app ctx env account))
            = [(''grantPut'', AccountPrincipal (Some u)), (''grantRead'', AccountPrincipal (Some u)),
               (''grantPut'', AccountPrincipal (Some q)), (''grantRead'', AccountPrincipal (Some q))]
        \<and> pipeline_addToRolePolicy (crossAccountPipelineStack (app ctx env account))
            = [\<lparr>statement_actions = [''sts:AssumeRole''],
                resources = [''arn:aws:iam::'' @ u @ '':role/*'',
                             ''arn:aws:iam::'' @ q @ '':role/*'']\<rparr>]"
    if a: "app_uatAccountId ctx env = Some u" and b: "app_prodAccountId ctx env = Some q" for u q
    unfolding app_pipeline[OF a b]
    by (rule conjI[OF new_app_Inr[OF a b] pipeline_targets])
  have tools: "new_app ctx env account = Inr (app ctx env account)
        \<and> deploy_targets (crossAccountPipelineStack (app ctx env account))
            = [(''Deploy_Uat'', ''UatApplicationDeploymentStack'',
                ''arn:aws:iam::'' @ tools @ '':role/CodePipelineCrossAccountRole'',
                ''arn:aws:iam::'' @ tools @ '':role/CloudFormationDeploymentRole''),
               (''Deploy_Prod'', ''ProdApplicationDeploymentStack'',
                ''arn:aws:iam::'' @ tools @ '':role/CodePipelineCrossAccountRole'',
                ''arn:aws:iam::'' @ tools @ '':role/CloudFormationDeploymentRole'')]
        \<and> key_grantDecrypt (crossAccountPipelineStack (app ctx env account))
            = [AccountPrincipal (Some tools),
               Role \<lparr>role_id = ''UatCrossAccountRole'',
                     roleArn = ''arn:aws:iam::'' @ tools @ '':role/CodePipelineCrossAccountRole'',
                     mutable = False\<rparr>,
               AccountPrincipal (Some tools),
               Role \<lparr>role_id = ''ProdCrossAccountRole'',
                     roleArn = ''arn:aws:iam::'' @ tools @ '':role/CodePipelineCrossAccountRole'',
                     mutable = False\<rparr>]"
    if "ctx ''uat-account'' = None \<or> ctx ''uat-account'' = Some []"
      "ctx ''prod-account'' = None \<or> ctx ''prod-account'' = Some []"
      "env ''CDK_INTEG_ACCOUNT'' = None \<or> env ''CDK_INTEG_ACCOUNT'' = Some []"
      "env ''CDK_DEFAULT_ACCOUNT'' = Some tools"
  proof -
    from that u2 have a: "app_uatAccountId ctx env = Some tools" by simp
    from that p2 have b: "app_prodAccountId ctx env = Some tools" by simp
    from obs[OF a b] show ?thesis by blast
  qed
  have c1: "(ctx ''uat-account'' = None \<or> ctx ''uat-account'' = Some [])
      \<and> env ''CDK_INTEG_ACCOUNT'' = Some i \<and> i \<noteq> [] \<longrightarrow>
      app_uatAccountId ctx env = Some i"
    using u1 by blast
  have c2: "(ctx ''uat-account'' = None \<or> ctx ''uat-account'' = Some [])
      \<and> (env ''CDK_INTEG_ACCOUNT'' = None \<or> env ''CDK_INTEG_ACCOUNT'' = Some []) \<longrightarrow>
      app_uatAccountId ctx env = env ''CDK_DEFAULT_ACCOUNT''"
    using u2 by blast
  have c3: "(ctx ''prod-account'' = None \<or> ctx ''prod-account'' = Some [])
      \<and> env ''CDK_INTEG_ACCOUNT'' = Some i \<and> i \<noteq> [] \<longrightarrow>
      app_prodAccountId ctx env = Some i"
    using p1 by blast
  have c4: "(ctx ''prod-account'' = None \<or> ctx ''prod-account'' = Some [])
      \<and> (env ''CDK_INTEG_ACCOUNT'' = None \<or> env ''CDK_INTEG_ACCOUNT'' = Some []) \<longrightarrow>
      app_prodAccountId ctx env = env ''CDK_DEFAULT_ACCOUNT''"
    using p2 by blast
  have c5: "ctx ''uat-account'' = Some c \<and> c \<noteq> [] \<longrightarrow> app_uatAccountId ctx env = Some c"
    using u3 by blast
  have c6: "ctx ''prod-account'' = Some c \<and> c \<noteq> [] \<longrightarrow> app_prodAccountId ctx env = Some c"
    using p3 by blast
  have c7: "env ''CDK_DEFAULT_ACCOUNT'' = Some tools \<longrightarrow>
        new_app ctx env account = Inr (app ctx env account)"
    using ok by blast
  show ?thesis
    apply (intro conjI[OF c1] conjI[OF c2] conjI[OF c3] conjI[OF c4] conjI[OF c5] conjI[OF c6]
        conjI[OF c7])
    subgoal by (rule conjI[OF impI conjI[OF impI fails]]; (elim conjE)?) (rule obs tools; assumption)+
    done
qed

text \<open>
  Witness for C9: an empty context with \<^verbatim>\<open>CDK_DEFAULT_ACCOUNT=111\<close> alone, with
  \<^verbatim>\<open>CDK_INTEG_ACCOUNT=999\<close> as well, and with an empty \<^verbatim>\<open>CDK_INTEG_ACCOUNT\<close>; a context
  with \<^verbatim>\<open>prod-account\<close> only; and no value at all.
\<close>

theorem missing_account_context_falls_back_witness:
  "new_app Map.empty tools_only ''111'' = Inr (app Map.empty tools_only ''111'')
   \<and> deploy_targets (crossAccountPipelineStack (app Map.empty tools_only ''111''))
       = [(''Deploy_Uat'', ''UatApplicationDeploymentStack'',
           ''arn:aws:iam::111:role/CodePipelineCrossAccountRole'',
           ''arn:aws:iam::111:role/CloudFormationDeploymentRole''),
          (''Deploy_Prod'', ''ProdApplicationDeploymentStack'',
           ''arn:aws:iam::111:role/CodePipelineCrossAccountRole'',
           ''arn:aws:iam::111:role/CloudFormationDeploymentRole'')]
   \<and> key_grantDecrypt (crossAccountPipelineStack (app Map.empty tools_only ''111''))
       = [AccountPrincipal (Some ''111''),
          Role \<lparr>role_id = ''UatCrossAccountRole'',
                roleArn = ''arn:aws:iam::111:role/CodePipelineCrossAccountRole'',
                mutable = False\<rparr>,
          AccountPrincipal (Some ''111''),
          Role \<lparr>role_id = ''ProdCrossAccountRole'',
                roleArn = ''arn:aws:iam::111:role/CodePipelineCrossAccountRole'',
                mutable = False\<rparr>]
   \<and> app_uatAccountId Map.empty with_integ_account = Some ''999''
   \<and> app_prodAccountId Map.empty with_integ_account = Some ''999''
   \<and> app_uatAccountId Map.empty empty_integ_account = Some ''111''
   \<and> app_prodAccountId Map.empty empty_integ_account = Some ''111''
   \<and> app_uatAccountId prod_context_only tools_only = Some ''111''
   \<and> app_prodAccountId prod_context_only tools_only = Some ''333''
   \<and> new_app prod_context_only tools_only ''111'' = Inr (app prod_context_only tools_only ''111'')
   \<and> deploy_targets (crossAccountPipelineStack (app prod_context_only tools_only ''111''))
       = [(''Deploy_Uat'', ''UatApplicationDeploymentStack'',
           ''arn:aws:iam::111:role/CodePipelineCrossAccountRole'',
           ''arn:aws:iam::111:role/CloudFormationDeploymentRole''),
          (''Deploy_Prod'', ''ProdApplicationDeploymentStack'',
           ''arn:aws:iam::333:role/CodePipelineCrossAccountRole'',
           ''arn:aws:iam::333:role/CloudFormationDeploymentRole'')]
   \<and> new_app Map.empty Map.empty ''111'' = Inl AccountIdNotString"
proof -
  note n = missing_account_context_falls_back[where ctx = Map.empty and env = Map.empty
      and tools = "''111''" and account = "''111''" and i = "''999''" and c = "''333''"
      and u = "''111''" and q = "''111''"]
  have x: "new_app Map.empty Map.empty ''111'' = Inl AccountIdNotString"
    by (rule n[THEN conjunct2, THEN conjunct2, THEN conjunct2, THEN conjunct2, THEN conjunct2,
          THEN conjunct2, THEN conjunct2, THEN conjunct2, THEN conjunct2, THEN mp])
      (simp add: app_uatAccountId_def js_or_def truthy_def)
  note t = missing_account_context_falls_back[where ctx = Map.empty and env = tools_only
      and tools = "''111''" and account = "''111''" and i = "''999''" and c = "''333''"
      and u = "''111''" and q = "''111''"]
  note v = missing_account_context_falls_back[where ctx = Map.empty and env = with_integ_account
      and tools = "''111''" and account = "''111''" and i = "''999''" and c = "''333''"
      and u = "''111''" and q = "''111''"]
  note e = missing_account_context_falls_back[where ctx = Map.empty and env = empty_integ_account
      and tools = "''111''" and account = "''111''" and i = "''999''" and c = "''333''"
      and u = "''111''" and q = "''111''"]
  note m = missing_account_context_falls_back[where ctx = prod_context_only and env = tools_only
      and tools = "''111''" and account = "''111''" and i = "''999''" and c = "''333''"
      and u = "''111''" and q = "''333''"]
  note t_tools = t[THEN conjunct2, THEN conjunct2, THEN conjunct2, THEN conjunct2,
      THEN conjunct2, THEN conjunct2, THEN conjunct2, THEN conjunct2, THEN conjunct1, THEN mp]
  have a: "new_app Map.empty tools_only ''111'' = Inr (app Map.empty tools_only ''111'')
      \<and> deploy_targets (crossAccountPipelineStack (app Map.empty tools_only ''111''))
       = [(''Deploy_Uat'', ''UatApplicationDeploymentStack'',
           ''arn:aws:iam::'' @ ''111'' @ '':role/CodePipelineCrossAccountRole'',
           ''arn:aws:iam::'' @ ''111'' @ '':role/CloudFormationDeploymentRole''),
          (''Deploy_Prod'', ''ProdApplicationDeploymentStack'',
           ''arn:aws:iam::'' @ ''111'' @ '':role/CodePipelineCrossAccountRole'',
           ''arn:aws:iam::'' @ ''111'' @ '':role/CloudFormationDeploymentRole'')]
      \<and> key_grantDecrypt (crossAccountPipelineStack (app Map.empty tools_only ''111''))
       = [AccountPrincipal (Some ''111''),
          Role \<lparr>role_id = ''UatCrossAccountRole'',
                roleArn = ''arn:aws:iam::'' @ ''111'' @ '':role/CodePipelineCrossAccountRole'',
                mutable = False\<rparr>,
          AccountPrincipal (Some ''111''),
          Role \<lparr>role_id = ''ProdCrossAccountRole'',
                roleArn = ''arn:aws:iam::'' @ ''111'' @ '':role/CodePipelineCrossAccountRole'',
                mutable = False\<rparr>]"
    by (rule t_tools) (simp add: tools_only_def)
  have b1: "app_uatAccountId Map.empty with_integ_account = Some ''999''"
    by (rule v[THEN conjunct1, THEN mp]) (simp add: with_integ_account_def)
  have b2: "app_prodAccountId Map.empty with_integ_account = Some ''999''"
    by (rule v[THEN conjunct2, THEN conjunct2, THEN conjunct1, THEN mp])
      (simp add: with_integ_account_def)
  have "app_uatAccountId Map.empty empty_integ_account = empty_integ_account ''CDK_DEFAULT_ACCOUNT''"
    by (rule e[THEN conjunct2, THEN conjunct1, THEN mp]) (simp add: empty_integ_account_def)
  then have d1: "app_uatAccountId Map.empty empty_integ_account = Some ''111''"
    by (simp add: empty_integ_account_def)
  have "app_prodAccountId Map.empty empty_integ_account = empty_integ_account ''CDK_DEFAULT_ACCOUNT''"
    by (rule e[THEN conjunct2, THEN conjunct2, THEN conjunct2, THEN conjunct1, THEN mp])
      (simp add: empty_integ_account_def)
  then have d2: "app_prodAccountId Map.empty empty_integ_account = Some ''111''"
    by (simp add: empty_integ_account_def)
  have "app_uatAccountId prod_context_only tools_only = tools_only ''CDK_DEFAULT_ACCOUNT''"
    by (rule m[THEN conjunct2, THEN conjunct1, THEN mp])
      (simp add: prod_context_only_def tools_only_def)
  then have e1: "app_uatAccountId prod_context_only tools_only = Some ''111''"
    by (simp add: tools_only_def)
  have e2: "app_prodAccountId prod_context_only tools_only = Some ''333''"
    by (rule m[THEN conjunct2, THEN conjunct2, THEN conjunct2, THEN conjunct2, THEN conjunct2,
          THEN conjunct1, THEN mp]) (simp add: prod_context_only_def)
  note o = m[THEN conjunct2, THEN conjunct2, THEN conjunct2, THEN conjunct2, THEN conjunct2,
      THEN conjunct2, THEN conjunct2, THEN conjunct1, THEN mp, OF conjI[OF e1 e2]]
  note e3 = o[THEN conjunct1]
  note e4 = o[THEN conjunct2, THEN conjunct2, THEN conjunct1]
  from a b1 b2 d1 d2 e1 e2 e3 e4 x show ?thesis
    by simp
qed


end
